theory Spec2Isabelle
  imports Complex_Main "HOL-Library.Word" "HOL-Library.Log_Nat" "HOL-Library.Multiset"
begin

chapter \<open>ioeye: storage latency analysis\<close>

text \<open>
  A shallow embedding of the analysis engine of ioeye: the storage analyzer
  (\<^verbatim>\<open>pkg/analyzer/storage_analyzer.go\<close>), the read accessors of the storage monitor
  (package \<^verbatim>\<open>monitor\<close>) and the block-layer probes of the eBPF program.
  Go's \<^verbatim>\<open>uint64\<close> is \<^typ>\<open>64 word\<close>, so \<open>+\<close> and \<open>-\<close> wrap as in the source.
\<close>

section \<open>Go's float64\<close>

text \<open>
  A \<^verbatim>\<open>float64\<close> is an IEEE 754 binary64 value: a finite number with a sign bit
  (so that both zeros exist), an infinity with a sign, or NaN. A finite value carries
  its sign (\<open>True\<close> is negative) and its magnitude. Every arithmetic operation
  computes the exact result and rounds it once, to nearest, ties to even, as the
  hardware does; each operation of the source is rounded on its own (no fused
  multiply-add).
\<close>

datatype float64 = Finite bool real | Infinity bool | NaN

text \<open>\<open>exponent_of m\<close> is the binary exponent \<open>e\<close> of a positive real: \<open>2^e \<le> m < 2^(e+1)\<close>.\<close>

definition exponent_of :: "real \<Rightarrow> int" where
  "exponent_of m =
     (if 1 \<le> m then int (floorlog 2 (nat \<lfloor>m\<rfloor>)) - 1
      else - int (floorlog 2 (nat (\<lceil>1 / m\<rceil> - 1))))"

text \<open>
  The spacing of binary64 numbers around \<open>m\<close>: 53 significant bits, and the fixed
  spacing \<open>2^-1074\<close> of the subnormal range below \<open>2^-1022\<close>.
\<close>

definition quantum :: "real \<Rightarrow> real" where
  "quantum m = 2 powi (max (exponent_of m) (- 1022) - 52)"

definition round_to_even :: "real \<Rightarrow> int" where
  "round_to_even k =
     (let f = \<lfloor>k\<rfloor>; d = k - of_int f
      in if d < 1 / 2 then f else if 1 / 2 < d then f + 1 else if even f then f else f + 1)"

definition round_magnitude :: "real \<Rightarrow> real" where
  "round_magnitude m =
     (if m = 0 then 0 else of_int (round_to_even (m / quantum m)) * quantum m)"

text \<open>Rounding an exact result given by sign and magnitude; overflow gives an infinity.\<close>

definition round64 :: "bool \<Rightarrow> real \<Rightarrow> float64" where
  "round64 s m = (let y = round_magnitude m in if 2 ^ 1024 \<le> y then Infinity s else Finite s y)"

definition signed :: "bool \<Rightarrow> real \<Rightarrow> real" where
  "signed s m = (if s then - m else m)"

fun fneg :: "float64 \<Rightarrow> float64" where
  "fneg NaN = NaN"
| "fneg (Infinity s) = Infinity (\<not> s)"
| "fneg (Finite s m) = Finite (\<not> s) m"

fun fadd :: "float64 \<Rightarrow> float64 \<Rightarrow> float64" where
  "fadd NaN _ = NaN"
| "fadd _ NaN = NaN"
| "fadd (Infinity s) (Infinity t) = (if s = t then Infinity s else NaN)"
| "fadd (Infinity s) (Finite _ _) = Infinity s"
| "fadd (Finite _ _) (Infinity t) = Infinity t"
| "fadd (Finite s a) (Finite t b) =
     (let x = signed s a + signed t b
      in if x = 0 then Finite (s \<and> t) 0 else round64 (x < 0) \<bar>x\<bar>)"

definition fsub :: "float64 \<Rightarrow> float64 \<Rightarrow> float64" where
  "fsub x y = fadd x (fneg y)"

fun fmul :: "float64 \<Rightarrow> float64 \<Rightarrow> float64" where
  "fmul NaN _ = NaN"
| "fmul _ NaN = NaN"
| "fmul (Infinity s) (Infinity t) = Infinity (s \<noteq> t)"
| "fmul (Infinity s) (Finite t b) = (if b = 0 then NaN else Infinity (s \<noteq> t))"
| "fmul (Finite s a) (Infinity t) = (if a = 0 then NaN else Infinity (s \<noteq> t))"
| "fmul (Finite s a) (Finite t b) = round64 (s \<noteq> t) (a * b)"

fun fdiv :: "float64 \<Rightarrow> float64 \<Rightarrow> float64" where
  "fdiv NaN _ = NaN"
| "fdiv _ NaN = NaN"
| "fdiv (Infinity s) (Infinity t) = NaN"
| "fdiv (Infinity s) (Finite t b) = Infinity (s \<noteq> t)"
| "fdiv (Finite s a) (Infinity t) = Finite (s \<noteq> t) 0"
| "fdiv (Finite s a) (Finite t b) =
     (if b = 0 then (if a = 0 then NaN else Infinity (s \<noteq> t))
      else round64 (s \<noteq> t) (a / b))"

text \<open>Comparison: false as soon as one side is NaN; the two zeros are equal.\<close>

fun flt :: "float64 \<Rightarrow> float64 \<Rightarrow> bool" where
  "flt NaN _ = False"
| "flt _ NaN = False"
| "flt (Infinity s) (Infinity t) = (s \<and> \<not> t)"
| "flt (Infinity s) (Finite _ _) = s"
| "flt (Finite _ _) (Infinity t) = (\<not> t)"
| "flt (Finite s a) (Finite t b) = (signed s a < signed t b)"

definition fgt :: "float64 \<Rightarrow> float64 \<Rightarrow> bool" where
  "fgt x y = flt y x"

text \<open>Conversions \<^verbatim>\<open>float64(x)\<close> of a \<^verbatim>\<open>uint64\<close> and of an \<^verbatim>\<open>int\<close>, and constants.\<close>

type_synonym uint64 = "64 word"

definition float64_of_uint64 :: "uint64 \<Rightarrow> float64" where
  "float64_of_uint64 w = round64 False (real (unat w))"

definition float64_of_int :: "int \<Rightarrow> float64" where
  "float64_of_int i = round64 (i < 0) \<bar>real_of_int i\<bar>"

definition fconst :: "int \<Rightarrow> float64" where
  "fconst i = Finite (i < 0) \<bar>real_of_int i\<bar>"



section \<open>Data model\<close>

text \<open>
  \<^verbatim>\<open>time.Time\<close> is an instant in nanoseconds. \<^verbatim>\<open>time.Duration\<close> is an \<^verbatim>\<open>int64\<close> count of
  nanoseconds: its arithmetic wraps, and \<open>sint\<close> reads its value. \<^verbatim>\<open>Time.Add\<close> moves an
  instant by the value of a duration.
\<close>

type_synonym Time = int
type_synonym Duration = "64 word"

definition Time_Add :: "Time \<Rightarrow> Duration \<Rightarrow> Time" where
  "Time_Add t d = t + sint d"

record PodStorageMetrics =
  PodName :: string
  Namespace :: string
  ReadLatency :: uint64
  WriteLatency :: uint64
  ReadIOPS :: uint64
  WriteIOPS :: uint64
  ReadThroughput :: uint64
  WriteThroughput :: uint64
  QueueLatency :: uint64
  DiskLatency :: uint64
  NetworkLatency :: uint64
  Timestamp :: Time

definition ReadLatencyThreshold :: uint64 where
  "ReadLatencyThreshold = 10 * 1000 * 1000"

definition WriteLatencyThreshold :: uint64 where
  "WriteLatencyThreshold = 20 * 1000 * 1000"

definition QueueLatencyThreshold :: uint64 where
  "QueueLatencyThreshold = 5 * 1000 * 1000"

datatype BottleneckType =
  BottleneckTypeNone | BottleneckTypeQueue | BottleneckTypeDisk
| BottleneckTypeNetwork | BottleneckTypeUnknown

fun BottleneckType_string :: "BottleneckType \<Rightarrow> string" where
  "BottleneckType_string BottleneckTypeNone = ''none''"
| "BottleneckType_string BottleneckTypeQueue = ''queue''"
| "BottleneckType_string BottleneckTypeDisk = ''disk''"
| "BottleneckType_string BottleneckTypeNetwork = ''network''"
| "BottleneckType_string BottleneckTypeUnknown = ''unknown''"

text \<open>
  Snapshots are shared through pointers (\<^verbatim>\<open>*monitor.PodStorageMetrics\<close>). The heap
  is the list of all allocated snapshots; an address is an index into it, and an
  allocation appends.
\<close>

type_synonym addr = nat
type_synonym heap = "PodStorageMetrics list"

definition new :: "heap \<Rightarrow> PodStorageMetrics \<Rightarrow> heap \<times> addr" where
  "new h v = (h @ [v], length h)"

record StorageAnalyzer =
  metricsHistory :: "string \<rightharpoonup> addr list"
  maxHistoryPerPod :: int
  podBottlenecks :: "string \<rightharpoonup> BottleneckType"
  anomalyDetected :: "string \<rightharpoonup> bool"
  anomalyThreshold :: float64

section \<open>The storage analyzer\<close>

definition WithMaxHistoryPerPod :: "int \<Rightarrow> StorageAnalyzer \<Rightarrow> StorageAnalyzer" where
  "WithMaxHistoryPerPod max_n sa = (if 0 < max_n then sa\<lparr>maxHistoryPerPod := max_n\<rparr> else sa)"

definition WithAnomalyThreshold :: "float64 \<Rightarrow> StorageAnalyzer \<Rightarrow> StorageAnalyzer" where
  "WithAnomalyThreshold threshold sa =
     (if fgt threshold (fconst 0) then sa\<lparr>anomalyThreshold := threshold\<rparr> else sa)"

definition NewStorageAnalyzer :: "(StorageAnalyzer \<Rightarrow> StorageAnalyzer) list \<Rightarrow> StorageAnalyzer" where
  "NewStorageAnalyzer options =
     fold (\<lambda>option sa. option sa) options
       \<lparr>metricsHistory = Map.empty, maxHistoryPerPod = 100, podBottlenecks = Map.empty,
        anomalyDetected = Map.empty, anomalyThreshold = fconst 2\<rparr>"

subsection \<open>analyzeBottleneck\<close>

definition analyzeBottleneck :: "StorageAnalyzer \<Rightarrow> PodStorageMetrics \<Rightarrow> BottleneckType" where
  "analyzeBottleneck sa metrics =
     (if QueueLatency metrics > QueueLatencyThreshold \<and>
         QueueLatency metrics > DiskLatency metrics \<and>
         QueueLatency metrics > NetworkLatency metrics
      then BottleneckTypeQueue
      else if DiskLatency metrics > QueueLatency metrics \<and>
              DiskLatency metrics > NetworkLatency metrics
      then BottleneckTypeDisk
      else if NetworkLatency metrics > QueueLatency metrics \<and>
              NetworkLatency metrics > DiskLatency metrics
      then BottleneckTypeNetwork
      else if ReadLatency metrics > ReadLatencyThreshold \<or>
              WriteLatency metrics > WriteLatencyThreshold
      then BottleneckTypeUnknown
      else BottleneckTypeNone)"

subsection \<open>detectAnomaly\<close>

text \<open>
  The body of \<^verbatim>\<open>detectAnomaly\<close> on the snapshots the history points to. The two
  loops of the source are folds over the history, each with a pair of accumulators.
\<close>

definition detectAnomaly_history :: "float64 \<Rightarrow> PodStorageMetrics list \<Rightarrow> bool" where
  "detectAnomaly_history threshold history =
     (if length history < 10 then False
      else
        let (sumRead, sumWrite) =
              fold (\<lambda>metrics (sr, sw). (sr + ReadLatency metrics, sw + WriteLatency metrics))
                history (0 :: uint64, 0 :: uint64);
            avgRead = fdiv (float64_of_uint64 sumRead) (float64_of_int (int (length history)));
            avgWrite = fdiv (float64_of_uint64 sumWrite) (float64_of_int (int (length history)));
            (sumSqDiffRead, sumSqDiffWrite) =
              fold (\<lambda>metrics (qr, qw).
                      let diffRead = fsub (float64_of_uint64 (ReadLatency metrics)) avgRead;
                          diffWrite = fsub (float64_of_uint64 (WriteLatency metrics)) avgWrite
                      in (fadd qr (fmul diffRead diffRead), fadd qw (fmul diffWrite diffWrite)))
                history (fconst 0, fconst 0);
            stdDevRead = fdiv sumSqDiffRead (float64_of_int (int (length history)));
            stdDevWrite = fdiv sumSqDiffWrite (float64_of_int (int (length history)));
            latest = last history;
            readZScore = fdiv (fsub (float64_of_uint64 (ReadLatency latest)) avgRead) stdDevRead;
            writeZScore = fdiv (fsub (float64_of_uint64 (WriteLatency latest)) avgWrite) stdDevWrite
        in fgt readZScore threshold \<or> fgt writeZScore threshold)"

definition detectAnomaly :: "heap \<Rightarrow> StorageAnalyzer \<Rightarrow> string \<Rightarrow> bool" where
  "detectAnomaly h sa podName =
     (case metricsHistory sa podName of
        None \<Rightarrow> False
      | Some history \<Rightarrow> detectAnomaly_history (anomalyThreshold sa) (map (\<lambda>p. h ! p) history))"

subsection \<open>AddMetrics\<close>

text \<open>
  The argument map is given as the list of its entries in the order the \<^verbatim>\<open>range\<close>
  loop visits them; an entry holds the snapshot its pointer refers to, or \<open>None\<close>
  for a nil pointer, on which \<^verbatim>\<open>*podMetrics\<close> panics.
\<close>

text \<open>
  The ways a call can end without returning: the runtime panics on a nil pointer
  and on a slice capacity out of range, and stops with a fatal error when it cannot
  obtain memory.
\<close>

datatype panic = NilPointerDereference | MakeSliceCapOutOfRange | OutOfMemory

definition AddMetrics_pod ::
  "heap \<Rightarrow> StorageAnalyzer \<Rightarrow> string \<Rightarrow> PodStorageMetrics \<Rightarrow> heap \<times> StorageAnalyzer" where
  "AddMetrics_pod h sa podName podMetrics =
     (let (h1, metricsCopy) = new h podMetrics;
          appended = (case metricsHistory sa podName of None \<Rightarrow> [] | Some history \<Rightarrow> history)
                       @ [metricsCopy];
          kept = (if int (length appended) > maxHistoryPerPod sa then drop 1 appended else appended);
          sa1 = sa\<lparr>metricsHistory := (metricsHistory sa)(podName \<mapsto> kept)\<rparr>;
          sa2 = sa1\<lparr>podBottlenecks :=
                  (podBottlenecks sa1)(podName \<mapsto> analyzeBottleneck sa1 podMetrics)\<rparr>;
          sa3 = sa2\<lparr>anomalyDetected :=
                  (anomalyDetected sa2)(podName \<mapsto> detectAnomaly h1 sa2 podName)\<rparr>
      in (h1, sa3))"

fun AddMetrics ::
  "heap \<Rightarrow> StorageAnalyzer \<Rightarrow> (string \<times> PodStorageMetrics option) list
     \<Rightarrow> panic + heap \<times> StorageAnalyzer" where
  "AddMetrics h sa [] = Inr (h, sa)"
| "AddMetrics h sa ((podName, None) # rest) = Inl NilPointerDereference"
| "AddMetrics h sa ((podName, Some podMetrics) # rest) =
     (case AddMetrics_pod h sa podName podMetrics of (h', sa') \<Rightarrow> AddMetrics h' sa' rest)"

text \<open>A sequence of calls; a panic ends the run.\<close>

fun AddMetrics_calls ::
  "heap \<Rightarrow> StorageAnalyzer \<Rightarrow> (string \<times> PodStorageMetrics option) list list
     \<Rightarrow> panic + heap \<times> StorageAnalyzer" where
  "AddMetrics_calls h sa [] = Inr (h, sa)"
| "AddMetrics_calls h sa (batch # batches) =
     (case AddMetrics h sa batch of
        Inl p \<Rightarrow> Inl p
      | Inr (h', sa') \<Rightarrow> AddMetrics_calls h' sa' batches)"

subsection \<open>GetTopNSlowPods\<close>

record podLatency =
  pl_podName :: string
  pl_latency :: uint64
  pl_metrics :: addr

text \<open>
  The first loop, over the entries of \<^verbatim>\<open>metricsHistory\<close> in the order \<open>keys\<close> in
  which the runtime happens to iterate the map.
\<close>

definition latest_latencies :: "heap \<Rightarrow> StorageAnalyzer \<Rightarrow> string list \<Rightarrow> podLatency list" where
  "latest_latencies h sa keys =
     concat (map (\<lambda>podName.
        case metricsHistory sa podName of
          None \<Rightarrow> []
        | Some history \<Rightarrow>
            if length history = 0 then []
            else
              let latestMetrics = last history;
                  totalLatency = ReadLatency (h ! latestMetrics) + WriteLatency (h ! latestMetrics)
              in [\<lparr>pl_podName = podName, pl_latency = totalLatency, pl_metrics = latestMetrics\<rparr>])
        keys)"

text \<open>
  \<^verbatim>\<open>sort.Slice\<close> belongs to Go's library. Its contract: afterwards the slice holds
  the same elements, and no element is less than one before it. It promises no
  order among elements that compare equal.
\<close>

definition sort_Slice :: "('a \<Rightarrow> 'a \<Rightarrow> bool) \<Rightarrow> 'a list \<Rightarrow> 'a list \<Rightarrow> bool" where
  "sort_Slice lt xs ys \<longleftrightarrow> mset ys = mset xs \<and> sorted_wrt (\<lambda>a b. \<not> lt b a) ys"

text \<open>
  \<^verbatim>\<open>make([]*monitor.PodStorageMetrics, 0, n)\<close> allocates room for \<open>n\<close> pointers of
  8 bytes before the loop clamps \<open>n\<close> to the number of entries. The runtime panics
  when \<open>n\<close> is negative or the size exceeds \<^verbatim>\<open>maxAlloc\<close>, which is \<open>2^48\<close> bytes on
  64-bit Linux; below that bound the allocation of a non-empty slice can still fail
  for lack of memory, which ends the process.
\<close>

definition maxAlloc :: int where
  "maxAlloc = 2 ^ 48"

definition pointer_size :: int where
  "pointer_size = 8"

text \<open>
  The outcomes of a call in which the map is iterated in the order \<open>keys\<close>: one
  for each result of the sort. The result holds the pointers
  \<^verbatim>\<open>latencies[i].metrics\<close> themselves.
\<close>

inductive GetTopNSlowPods_iterating ::
  "string list \<Rightarrow> heap \<Rightarrow> StorageAnalyzer \<Rightarrow> int \<Rightarrow> panic + addr list \<Rightarrow> bool" where
  ranked:
    "sort_Slice (\<lambda>a b. pl_latency a > pl_latency b) (latest_latencies h sa keys) latencies \<Longrightarrow>
     0 \<le> n \<Longrightarrow> pointer_size * n \<le> maxAlloc \<Longrightarrow>
     GetTopNSlowPods_iterating keys h sa n (Inr (map pl_metrics (take (nat n) latencies)))"
| cap_out_of_range:
    "n < 0 \<or> maxAlloc < pointer_size * n \<Longrightarrow>
     GetTopNSlowPods_iterating keys h sa n (Inl MakeSliceCapOutOfRange)"
| out_of_memory:
    "0 < n \<Longrightarrow> pointer_size * n \<le> maxAlloc \<Longrightarrow>
     GetTopNSlowPods_iterating keys h sa n (Inl OutOfMemory)"

text \<open>
  The outcomes of a call: the runtime iterates the map in some order of its keys.
\<close>

inductive GetTopNSlowPods :: "heap \<Rightarrow> StorageAnalyzer \<Rightarrow> int \<Rightarrow> panic + addr list \<Rightarrow> bool" where
  iterating:
    "distinct keys \<Longrightarrow> set keys = dom (metricsHistory sa) \<Longrightarrow>
     GetTopNSlowPods_iterating keys h sa n res \<Longrightarrow>
     GetTopNSlowPods h sa n res"

subsection \<open>GetLatencyTrend\<close>

datatype error = InsufficientData string

text \<open>
  \<open>now\<close> is the value of \<^verbatim>\<open>time.Now()\<close>, and \<open>startTime\<close> is \<^verbatim>\<open>now.Add(-duration)\<close>, the
  negation taken in \<^verbatim>\<open>int64\<close>. The loop runs from the newest entry to the oldest and
  stops at the first one before \<open>startTime\<close>.
\<close>

definition GetLatencyTrend ::
  "heap \<Rightarrow> StorageAnalyzer \<Rightarrow> Time \<Rightarrow> string \<Rightarrow> Duration \<Rightarrow> string \<times> float64 \<times> error option" where
  "GetLatencyTrend h sa now podName duration =
     (case metricsHistory sa podName of
        None \<Rightarrow> (''unknown'', fconst 0, Some (InsufficientData podName))
      | Some ptrs \<Rightarrow>
          if length ptrs < 2 then (''unknown'', fconst 0, Some (InsufficientData podName))
          else
            let history = map (\<lambda>p. h ! p) ptrs;
                startTime = Time_Add now (- duration);
                latest = last history;
                oldestInRange =
                  (case find (\<lambda>m. Timestamp m < startTime) (rev history) of
                     Some m \<Rightarrow> m
                   | None \<Rightarrow> history ! 0);
                oldTotalLatency = ReadLatency oldestInRange + WriteLatency oldestInRange;
                newTotalLatency = ReadLatency latest + WriteLatency latest
            in if oldTotalLatency = 0
               then (if newTotalLatency > 0 then (''increased'', fconst 100, None)
                     else (''stable'', fconst 0, None))
               else
                 let changePercent =
                       fmul (fdiv (fsub (float64_of_uint64 newTotalLatency)
                                        (float64_of_uint64 oldTotalLatency))
                                  (float64_of_uint64 oldTotalLatency))
                            (fconst 100)
                 in if fgt changePercent (fconst 10) then (''increased'', changePercent, None)
                    else if flt changePercent (fconst (- 10)) then (''decreased'', changePercent, None)
                    else (''stable'', changePercent, None))"

subsection \<open>GetBottleneckType and HasAnomalyDetected\<close>

definition GetBottleneckType :: "StorageAnalyzer \<Rightarrow> string \<Rightarrow> BottleneckType" where
  "GetBottleneckType sa podName =
     (case podBottlenecks sa podName of None \<Rightarrow> BottleneckTypeUnknown | Some bottleneck \<Rightarrow> bottleneck)"

definition HasAnomalyDetected :: "StorageAnalyzer \<Rightarrow> string \<Rightarrow> bool" where
  "HasAnomalyDetected sa podName =
     (case anomalyDetected sa podName of None \<Rightarrow> False | Some anomaly \<Rightarrow> anomaly)"

section \<open>The storage monitor\<close>

record StorageMonitor =
  namespace :: string
  interval :: int
  metrics :: "string \<rightharpoonup> addr"

text \<open>
  \<^verbatim>\<open>GetAllMetrics\<close> visits the entries in the order \<open>keys\<close>, allocates a copy of
  each snapshot and returns the map of the copies.
\<close>

fun GetAllMetrics_loop ::
  "StorageMonitor \<Rightarrow> string list \<Rightarrow> heap \<times> (string \<rightharpoonup> addr) \<Rightarrow> heap \<times> (string \<rightharpoonup> addr)" where
  "GetAllMetrics_loop sm [] (h, result) = (h, result)"
| "GetAllMetrics_loop sm (k # keys) (h, result) =
     (case metrics sm k of
        None \<Rightarrow> GetAllMetrics_loop sm keys (h, result)
      | Some v \<Rightarrow>
          (case new h (h ! v) of
             (h', metricsCopy) \<Rightarrow> GetAllMetrics_loop sm keys (h', result(k \<mapsto> metricsCopy))))"

definition GetAllMetrics :: "heap \<Rightarrow> StorageMonitor \<Rightarrow> string list \<Rightarrow> heap \<times> (string \<rightharpoonup> addr)" where
  "GetAllMetrics h sm keys = GetAllMetrics_loop sm keys (h, Map.empty)"

section \<open>The eBPF program\<close>

type_synonym u64 = "64 word"
type_synonym u32 = "32 word"
type_synonym u8 = "8 word"

record io_event_t =
  ts :: u64
  pid :: u32
  tid :: u32
  io_start :: u64
  io_end :: u64
  bytes :: u64
  comm :: string
  disk :: string
  operation :: u8
  io_type :: u8

record latency_info_t =
  total_read_ns :: u64
  total_write_ns :: u64
  count_read :: u64
  count_write :: u64

text \<open>
  A BPF hash map is a list of entries with distinct keys and a bound
  \<^verbatim>\<open>max_entries\<close>. An update with \<^verbatim>\<open>BPF_ANY\<close> replaces the value of a present
  key; it inserts a new key only while the map has room, and otherwise fails and
  leaves the map as it is (the probes ignore the return code).
\<close>

type_synonym ('k, 'v) bpf_map = "('k \<times> 'v) list"

definition bpf_map_lookup_elem :: "('k, 'v) bpf_map \<Rightarrow> 'k \<Rightarrow> 'v option" where
  "bpf_map_lookup_elem m k = map_of m k"

definition bpf_map_update_elem :: "nat \<Rightarrow> ('k, 'v) bpf_map \<Rightarrow> 'k \<Rightarrow> 'v \<Rightarrow> ('k, 'v) bpf_map" where
  "bpf_map_update_elem max_entries m k v =
     (if k \<in> fst ` set m then map (\<lambda>(k', v'). if k' = k then (k', v) else (k', v')) m
      else if length m < max_entries then m @ [(k, v)]
      else m)"

definition bpf_map_delete_elem :: "('k, 'v) bpf_map \<Rightarrow> 'k \<Rightarrow> ('k, 'v) bpf_map" where
  "bpf_map_delete_elem m k = filter (\<lambda>(k', v'). k' \<noteq> k) m"

text \<open>
  The maps of the program, and the records that reached user space through the
  perf event array \<^verbatim>\<open>events\<close>, oldest first.
\<close>

record bpf_state =
  requests :: "(u64, io_event_t) bpf_map"
  latency_by_pid :: "(u32, latency_info_t) bpf_map"
  events :: "io_event_t list"

definition requests_max_entries :: nat where
  "requests_max_entries = 10240"

definition latency_by_pid_max_entries :: nat where
  "latency_by_pid_max_entries = 1024"

definition zero_io_event :: io_event_t where
  "zero_io_event =
     \<lparr>ts = 0, pid = 0, tid = 0, io_start = 0, io_end = 0, bytes = 0, comm = [], disk = [],
      operation = 0, io_type = 0\<rparr>"

definition zero_latency_info :: latency_info_t where
  "zero_latency_info = \<lparr>total_read_ns = 0, total_write_ns = 0, count_read = 0, count_write = 0\<rparr>"

definition update_latency_stats :: "bpf_state \<Rightarrow> u32 \<Rightarrow> u64 \<Rightarrow> u8 \<Rightarrow> bpf_state" where
  "update_latency_stats s p duration op =
     (let m0 = latency_by_pid s;
          m1 = (case bpf_map_lookup_elem m0 p of
                  None \<Rightarrow> bpf_map_update_elem latency_by_pid_max_entries m0 p zero_latency_info
                | Some _ \<Rightarrow> m0)
      in case bpf_map_lookup_elem m1 p of
           None \<Rightarrow> s\<lparr>latency_by_pid := m1\<rparr>
         | Some latency \<Rightarrow>
             let latency' =
                   (if op = 0
                    then latency\<lparr>total_read_ns := total_read_ns latency + duration,
                                 count_read := count_read latency + 1\<rparr>
                    else if op = 1
                    then latency\<lparr>total_write_ns := total_write_ns latency + duration,
                                 count_write := count_write latency + 1\<rparr>
                    else latency)
             in s\<lparr>latency_by_pid :=
                    map (\<lambda>(k', v'). if k' = p then (k', latency') else (k', v')) m1\<rparr>)"

text \<open>\<^verbatim>\<open>REQ_OP_WRITE\<close> is the kernel's constant (\<^verbatim>\<open>linux/blk_types.h\<close>).\<close>

definition REQ_OP_WRITE :: u32 where
  "REQ_OP_WRITE = 1"

text \<open>
  \<^verbatim>\<open>trace_block_rq_issue\<close>: \<open>req\<close> is the request pointer of the tracepoint,
  \<open>now\<close> the value of \<^verbatim>\<open>bpf_ktime_get_ns()\<close>, \<open>pid_tgid\<close> that of
  \<^verbatim>\<open>bpf_get_current_pid_tgid()\<close>, \<open>name\<close> the current command and \<open>cmd_flags\<close>
  the flags of the request. The result is the return code and the new state.
\<close>

definition trace_block_rq_issue ::
  "bpf_state \<Rightarrow> u64 \<Rightarrow> u64 \<Rightarrow> u64 \<Rightarrow> string \<Rightarrow> u32 \<Rightarrow> int \<times> bpf_state" where
  "trace_block_rq_issue s req now pid_tgid name cmd_flags =
     (let io_event = zero_io_event\<lparr>ts := now, io_start := now,
                        pid := ucast (drop_bit 32 pid_tgid),
                        tid := ucast (and pid_tgid 0xFFFFFFFF),
                        comm := name,
                        operation := (if and cmd_flags REQ_OP_WRITE \<noteq> 0 then 1 else 0)\<rparr>
      in (0, s\<lparr>requests := bpf_map_update_elem requests_max_entries (requests s) req io_event\<rparr>))"

text \<open>
  \<^verbatim>\<open>trace_block_rq_complete\<close>: \<open>delivered\<close> tells whether
  \<^verbatim>\<open>bpf_perf_event_output\<close> found room in the buffer of the current CPU; the probe
  ignores its return code.
\<close>

definition trace_block_rq_complete :: "bpf_state \<Rightarrow> u64 \<Rightarrow> u64 \<Rightarrow> bool \<Rightarrow> int \<times> bpf_state" where
  "trace_block_rq_complete s req now delivered =
     (case bpf_map_lookup_elem (requests s) req of
        None \<Rightarrow> (0, s)
      | Some io_eventp \<Rightarrow>
          let io_event = io_eventp\<lparr>io_end := now\<rparr>;
              duration = io_end io_event - io_start io_event;
              s1 = update_latency_stats s (pid io_event) duration (operation io_event);
              s2 = (if delivered then s1\<lparr>events := events s1 @ [io_event]\<rparr> else s1);
              s3 = s2\<lparr>requests := bpf_map_delete_elem (requests s2) req\<rparr>
          in (0, s3))"

text \<open>
  The probes on \<^verbatim>\<open>vfs_read\<close> and \<^verbatim>\<open>vfs_write\<close> correlate entry and return of a
  call under the key \<^verbatim>\<open>bpf_get_current_pid_tgid()\<close> in the same map. The two entry
  probes differ in the operation they record, the two return probes are the same
  code; \<open>ret\<close> is the return value of the call.
\<close>

definition trace_vfs_entry :: "u8 \<Rightarrow> bpf_state \<Rightarrow> u64 \<Rightarrow> u64 \<Rightarrow> string \<Rightarrow> int \<times> bpf_state" where
  "trace_vfs_entry op s now pid_tgid name =
     (let io_event = zero_io_event\<lparr>ts := now, io_start := now,
                        pid := ucast (drop_bit 32 pid_tgid),
                        tid := ucast (and pid_tgid 0xFFFFFFFF),
                        operation := op, comm := name\<rparr>
      in (0, s\<lparr>requests := bpf_map_update_elem requests_max_entries (requests s) pid_tgid io_event\<rparr>))"

definition trace_vfs_read_entry :: "bpf_state \<Rightarrow> u64 \<Rightarrow> u64 \<Rightarrow> string \<Rightarrow> int \<times> bpf_state" where
  "trace_vfs_read_entry = trace_vfs_entry 0"

definition trace_vfs_write_entry :: "bpf_state \<Rightarrow> u64 \<Rightarrow> u64 \<Rightarrow> string \<Rightarrow> int \<times> bpf_state" where
  "trace_vfs_write_entry = trace_vfs_entry 1"

definition trace_vfs_exit :: "bpf_state \<Rightarrow> u64 \<Rightarrow> u64 \<Rightarrow> u64 \<Rightarrow> int \<times> bpf_state" where
  "trace_vfs_exit s now pid_tgid ret =
     (case bpf_map_lookup_elem (requests s) pid_tgid of
        None \<Rightarrow> (0, s)
      | Some io_eventp \<Rightarrow>
          let io_event = io_eventp\<lparr>bytes := ret, io_end := now\<rparr>;
              duration = io_end io_event - io_start io_event;
              s1 = update_latency_stats s (pid io_event) duration (operation io_event);
              s2 = s1\<lparr>requests := bpf_map_delete_elem (requests s1) pid_tgid\<rparr>
          in (0, s2))"

section \<open>Notions of the specification\<close>

subsection \<open>The classifier\<close>

text \<open>
  A list of rules in priority order; the first rule whose condition holds decides.
  Thresholds are given in milliseconds and converted to nanoseconds.
\<close>

definition ms :: uint64 where
  "ms = 1000000"

definition strict_maximum :: "uint64 \<Rightarrow> uint64 \<Rightarrow> uint64 \<Rightarrow> bool" where
  "strict_maximum x y z \<longleftrightarrow> y < x \<and> z < x"

fun first_match :: "(bool \<times> 'a) list \<Rightarrow> 'a \<Rightarrow> 'a" where
  "first_match [] d = d"
| "first_match ((c, v) # rules) d = (if c then v else first_match rules d)"

definition classify_rules :: "PodStorageMetrics \<Rightarrow> (bool \<times> BottleneckType) list" where
  "classify_rules s =
     [(5 * ms < QueueLatency s \<and>
         strict_maximum (QueueLatency s) (DiskLatency s) (NetworkLatency s), BottleneckTypeQueue),
      (strict_maximum (DiskLatency s) (QueueLatency s) (NetworkLatency s), BottleneckTypeDisk),
      (strict_maximum (NetworkLatency s) (QueueLatency s) (DiskLatency s), BottleneckTypeNetwork),
      (10 * ms < ReadLatency s \<or> 20 * ms < WriteLatency s, BottleneckTypeUnknown)]"

definition classify :: "PodStorageMetrics \<Rightarrow> BottleneckType" where
  "classify s = first_match (classify_rules s) BottleneckTypeNone"

text \<open>
  Two or more of the three sub-latencies are equal and no sub-latency is larger.
\<close>

definition tied_maximum :: "PodStorageMetrics \<Rightarrow> bool" where
  "tied_maximum s \<longleftrightarrow>
     (QueueLatency s = DiskLatency s \<and> NetworkLatency s \<le> QueueLatency s) \<or>
     (QueueLatency s = NetworkLatency s \<and> DiskLatency s \<le> QueueLatency s) \<or>
     (DiskLatency s = NetworkLatency s \<and> QueueLatency s \<le> DiskLatency s)"

subsection \<open>The history store\<close>

text \<open>
  The history of a pod as a list of addresses (empty for an unknown pod) and as the
  list of the snapshots they point to; the capacity bound; too little history for a
  trend; the combined latency of the snapshot at an address, as the ranking uses it.
\<close>

definition history_of :: "StorageAnalyzer \<Rightarrow> string \<Rightarrow> addr list" where
  "history_of sa podName = (case metricsHistory sa podName of None \<Rightarrow> [] | Some history \<Rightarrow> history)"

definition history_values :: "heap \<Rightarrow> StorageAnalyzer \<Rightarrow> string \<Rightarrow> PodStorageMetrics list" where
  "history_values h sa podName = map (\<lambda>p. h ! p) (history_of sa podName)"

definition within_capacity :: "StorageAnalyzer \<Rightarrow> bool" where
  "within_capacity sa \<longleftrightarrow>
     (\<forall>podName history. metricsHistory sa podName = Some history \<longrightarrow>
        int (length history) \<le> maxHistoryPerPod sa)"

definition insufficient_data :: "StorageAnalyzer \<Rightarrow> string \<Rightarrow> bool" where
  "insufficient_data sa podName \<longleftrightarrow>
     (case metricsHistory sa podName of None \<Rightarrow> True | Some history \<Rightarrow> length history < 2)"

definition combined_latency :: "heap \<Rightarrow> addr \<Rightarrow> uint64" where
  "combined_latency h p = ReadLatency (h ! p) + WriteLatency (h ! p)"

subsection \<open>Anomaly detection\<close>

text \<open>
  Population mean and population variance (both divide by the number of values) of
  a list of latencies, and the score of the latest value: its deviation from the
  mean divided by the variance. The arithmetic is that of \<^verbatim>\<open>float64\<close>; the sum
  of the latencies is the sum of the numbers.
\<close>

definition float64_of_nat :: "nat \<Rightarrow> float64" where
  "float64_of_nat k = round64 False (real k)"

definition fsum :: "float64 list \<Rightarrow> float64" where
  "fsum xs = foldl fadd (fconst 0) xs"

definition population_mean :: "nat list \<Rightarrow> float64" where
  "population_mean xs = fdiv (float64_of_nat (sum_list xs)) (float64_of_nat (length xs))"

definition squared_deviation :: "float64 \<Rightarrow> nat \<Rightarrow> float64" where
  "squared_deviation mean x = fmul (fsub (float64_of_nat x) mean) (fsub (float64_of_nat x) mean)"

definition population_variance :: "nat list \<Rightarrow> float64" where
  "population_variance xs =
     fdiv (fsum (map (squared_deviation (population_mean xs)) xs)) (float64_of_nat (length xs))"

definition z_score :: "nat list \<Rightarrow> float64" where
  "z_score xs = fdiv (fsub (float64_of_nat (last xs)) (population_mean xs)) (population_variance xs)"

text \<open>
  The deviation of the latest value from the mean, as computed: the numerator of
  the score.
\<close>

definition latest_deviation :: "nat list \<Rightarrow> float64" where
  "latest_deviation xs = fsub (float64_of_nat (last xs)) (population_mean xs)"

definition read_latencies :: "PodStorageMetrics list \<Rightarrow> nat list" where
  "read_latencies history = map (\<lambda>m. unat (ReadLatency m)) history"

definition write_latencies :: "PodStorageMetrics list \<Rightarrow> nat list" where
  "write_latencies history = map (\<lambda>m. unat (WriteLatency m)) history"

definition anomaly_by_z_score :: "float64 \<Rightarrow> PodStorageMetrics list \<Rightarrow> bool" where
  "anomaly_by_z_score threshold history =
     (if length history < 10 then False
      else fgt (z_score (read_latencies history)) threshold \<or>
           fgt (z_score (write_latencies history)) threshold)"

text \<open>
  The same with the sum of the latencies taken in \<^verbatim>\<open>uint64\<close>, as the loop does.
\<close>

definition wrapped_mean :: "nat list \<Rightarrow> float64" where
  "wrapped_mean xs = fdiv (float64_of_nat (sum_list xs mod 2 ^ 64)) (float64_of_nat (length xs))"

definition wrapped_z_score :: "nat list \<Rightarrow> float64" where
  "wrapped_z_score xs =
     fdiv (fsub (float64_of_nat (last xs)) (wrapped_mean xs))
          (fdiv (fsum (map (squared_deviation (wrapped_mean xs)) xs)) (float64_of_nat (length xs)))"

subsection \<open>The trend\<close>

text \<open>
  The change between two snapshots: combined latency is read plus write latency;
  from 0 the trend is increased by 100 when the new combined latency is positive
  and stable by 0 otherwise; else the change in percent is classified with the
  bounds 10 and -10.
\<close>

definition latency_trend :: "PodStorageMetrics \<Rightarrow> PodStorageMetrics \<Rightarrow> string \<times> float64" where
  "latency_trend old latest =
     (let combined_old = ReadLatency old + WriteLatency old;
          combined_new = ReadLatency latest + WriteLatency latest
      in if combined_old = 0
         then (if 0 < combined_new then (''increased'', fconst 100) else (''stable'', fconst 0))
         else
           let change = fmul (fdiv (fsub (float64_of_uint64 combined_new)
                                         (float64_of_uint64 combined_old))
                                   (float64_of_uint64 combined_old))
                             (fconst 100)
           in if fgt change (fconst 10) then (''increased'', change)
              else if flt change (fconst (- 10)) then (''decreased'', change)
              else (''stable'', change))"

text \<open>
  The oldest snapshot whose timestamp is at least \<open>start\<close>; the oldest snapshot of
  all when none lies in the window.
\<close>

definition oldest_in_window :: "PodStorageMetrics list \<Rightarrow> Time \<Rightarrow> PodStorageMetrics" where
  "oldest_in_window history start =
     (case filter (\<lambda>m. start \<le> Timestamp m) history of
        [] \<Rightarrow> history ! 0
      | m # _ \<Rightarrow> m)"

definition trend_in_window :: "PodStorageMetrics list \<Rightarrow> Time \<Rightarrow> int \<Rightarrow> string \<times> float64" where
  "trend_in_window history now window =
     latency_trend (oldest_in_window history (now - window)) (last history)"

text \<open>
  What the loop of GetLatencyTrend selects.
\<close>

definition newest_before_window :: "PodStorageMetrics list \<Rightarrow> Time \<Rightarrow> PodStorageMetrics" where
  "newest_before_window history start =
     (case find (\<lambda>m. Timestamp m < start) (rev history) of
        Some m \<Rightarrow> m
      | None \<Rightarrow> history ! 0)"

section \<open>Evaluating float64 arithmetic on numerals\<close>

text \<open>
  Two auxiliary functions that let the simplifier evaluate a rounding quickly: the
  number of binary digits of a numeral, and the rounding with the exponent given.
\<close>

fun num_bits :: "num \<Rightarrow> nat" where
  "num_bits num.One = 1"
| "num_bits (num.Bit0 k) = num_bits k + 1"
| "num_bits (num.Bit1 k) = num_bits k + 1"

definition round64_at :: "bool \<Rightarrow> real \<Rightarrow> int \<Rightarrow> float64" where
  "round64_at s m e =
     (let q = 2 powi (max e (- 1022) - 52); k = round_to_even (m / q); y = of_int k * q
      in if 2 ^ 1024 \<le> y then Infinity s else Finite s y)"

section \<open>Examples\<close>

text \<open>
  A snapshot with the given latencies in nanoseconds.
\<close>

definition snapshot :: "string \<Rightarrow> Time \<Rightarrow> uint64 \<Rightarrow> uint64 \<Rightarrow> uint64 \<Rightarrow> uint64 \<Rightarrow> uint64 \<Rightarrow> PodStorageMetrics" where
  "snapshot name t r w q d n =
     \<lparr>PodName = name, Namespace = ''default'', ReadLatency = r, WriteLatency = w,
      ReadIOPS = 0, WriteIOPS = 0, ReadThroughput = 0, WriteThroughput = 0,
      QueueLatency = q, DiskLatency = d, NetworkLatency = n, Timestamp = t\<rparr>"

text \<open>
  An empty state of the probes, and one write request issued at time 100 by thread
  43 of process 42.
\<close>

definition empty_bpf_state :: bpf_state where
  "empty_bpf_state = \<lparr>requests = [], latency_by_pid = [], events = []\<rparr>"

definition issued_example :: bpf_state where
  "issued_example =
     snd (trace_block_rq_issue empty_bpf_state 0xFFFF888000001000 100 0x2A0000002B ''fio'' 1)"

definition issued_event :: io_event_t where
  "issued_event = zero_io_event\<lparr>ts := 100, io_start := 100, pid := 42, tid := 43,
     comm := ''fio'', operation := 1\<rparr>"

text \<open>
  Three calls of AddMetrics, each with one snapshot of pod a.
\<close>

definition pod_a :: "uint64 \<Rightarrow> uint64 \<Rightarrow> Time \<Rightarrow> PodStorageMetrics" where
  "pod_a r w t = snapshot ''a'' t r w 0 0 0"

definition three_calls :: "(string \<times> PodStorageMetrics option) list list" where
  "three_calls = [[(''a'', Some (pod_a 1 1 10))], [(''a'', Some (pod_a 2 2 20))], [(''a'', Some (pod_a 3 3 30))]]"

text \<open>
  The trend example of the specification: two snapshots of pod a, 300 s apart, with
  read latencies 10 ms and 15 ms and write latency 10 ms.
\<close>

definition trend_heap :: heap where
  "trend_heap = [snapshot ''a'' 0 10000000 10000000 0 0 0,
                 snapshot ''a'' 300000000000 15000000 10000000 0 0 0]"

definition trend_analyzer :: "addr list \<Rightarrow> StorageAnalyzer" where
  "trend_analyzer ptrs = (NewStorageAnalyzer [])\<lparr>metricsHistory := [''a'' \<mapsto> ptrs]\<rparr>"

text \<open>
  Four snapshots of pod a taken at 0 s, 100 s, 200 s and 300 s with combined
  latencies 10, 10, 20 and 20 ns.
\<close>

definition window_history :: heap where
  "window_history =
     [snapshot ''a'' 0 5 5 0 0 0, snapshot ''a'' 100000000000 5 5 0 0 0,
      snapshot ''a'' 200000000000 10 10 0 0 0, snapshot ''a'' 300000000000 10 10 0 0 0]"

text \<open>
  Two pods whose latest snapshots have the same combined latency 5; three pods with
  combined latencies 5 ms, 30 ms and 12 ms, added through AddMetrics; a snapshot
  with its read and write latency overwritten; a monitor holding one snapshot.
\<close>

definition tie_heap :: heap where
  "tie_heap = [snapshot ''a'' 0 3 2 0 0 0, snapshot ''b'' 0 1 4 0 0 0]"

definition tie_analyzer :: StorageAnalyzer where
  "tie_analyzer = (NewStorageAnalyzer [])\<lparr>metricsHistory := [''a'' \<mapsto> [0], ''b'' \<mapsto> [1]]\<rparr>"

definition three_heap :: heap where
  "three_heap = [snapshot ''a'' 0 2000000 3000000 0 0 0,
                 snapshot ''b'' 0 10000000 20000000 0 0 0,
                 snapshot ''c'' 0 5000000 7000000 0 0 0]"

definition three_analyzer :: StorageAnalyzer where
  "three_analyzer =
     (case AddMetrics [] (NewStorageAnalyzer [])
             [(''a'', Some (three_heap ! 0)), (''b'', Some (three_heap ! 1)), (''c'', Some (three_heap ! 2))] of
        Inr (h, sa) \<Rightarrow> sa
      | Inl p \<Rightarrow> NewStorageAnalyzer [])"

definition zeroed :: "PodStorageMetrics \<Rightarrow> PodStorageMetrics" where
  "zeroed m = m\<lparr>ReadLatency := 0, WriteLatency := 0\<rparr>"

definition monitor_heap :: heap where
  "monitor_heap = [snapshot ''a'' 0 7 8 0 0 0]"

definition monitor_example :: StorageMonitor where
  "monitor_example = \<lparr>namespace = ''default'', interval = 10, metrics = [''a'' \<mapsto> 0]\<rparr>"

text \<open>
  Ten identical snapshots with a read latency of 2000000000000001 ns; a hundred
  snapshots, ninety-nine with a read latency of \<open>3 * 2^56\<close> ns and the latest 32 ns
  above, whose read latencies add up to more than \<open>2^64\<close>; nine snapshots with a
  read latency of 10 ns and a latest one with 11 ns; ten identical snapshots with a
  read latency of 5 ms and a write latency of 7 ms. Write latencies are 0 in the
  first three.
\<close>

definition identical_history :: heap where
  "identical_history = replicate 10 (snapshot ''a'' 0 2000000000000001 0 0 0 0)"


definition spike_history :: heap where
  "spike_history = replicate 9 (snapshot ''a'' 0 10 0 0 0 0) @ [snapshot ''a'' 0 11 0 0 0 0]"

definition dip_history :: heap where
  "dip_history = replicate 9 (snapshot ''a'' 0 11 0 0 0 0) @ [snapshot ''a'' 0 10 0 0 0 0]"


definition calm_history :: heap where
  "calm_history = replicate 10 (snapshot ''a'' 0 5000000 7000000 0 0 0)"

text \<open>
  An analyzer with the default settings whose history of pod a is the whole heap of
  \<open>n\<close> snapshots, oldest first.
\<close>

definition analyzer_of_pod_a :: "nat \<Rightarrow> StorageAnalyzer" where
  "analyzer_of_pod_a n = (NewStorageAnalyzer [])\<lparr>metricsHistory := [''a'' \<mapsto> [0..<n]]\<rparr>"

section \<open>Properties of the classifier\<close>

lemma thresholds_in_ms:
  "QueueLatencyThreshold = 5 * ms" "ReadLatencyThreshold = 10 * ms" "WriteLatencyThreshold = 20 * ms"
  by (simp_all add: QueueLatencyThreshold_def ReadLatencyThreshold_def WriteLatencyThreshold_def ms_def)

text \<open>
  Claim C5. The classifier implements the priority list of the specification, first
  match winning: queue above 5 ms and strict maximum, then disk as strict maximum,
  then network as strict maximum, then unknown when the read latency is above 10 ms
  or the write latency above 20 ms, and none otherwise. The result depends on the
  snapshot alone: the analyzer's state \<open>sa\<close> is arbitrary.
\<close>

theorem analyzeBottleneck_priority:
  "analyzeBottleneck sa s = classify s"
  by (simp add: analyzeBottleneck_def classify_def classify_rules_def strict_maximum_def
      thresholds_in_ms)

lemma analyzeBottleneck_examples:
  "analyzeBottleneck sa (snapshot ''p'' 0 0 0 6000000 1000000 1000000) = BottleneckTypeQueue"
  "analyzeBottleneck sa (snapshot ''p'' 0 0 0 1000000 8000000 2000000) = BottleneckTypeDisk"
  "analyzeBottleneck sa (snapshot ''p'' 0 1000000 1000000 1000000 1000000 1000000) = BottleneckTypeNone"
  by (simp_all add: analyzeBottleneck_def snapshot_def QueueLatencyThreshold_def
      ReadLatencyThreshold_def WriteLatencyThreshold_def)

text \<open>
  Claim C2, as stated, fails: with all five latencies at 1 ms the three sub-latencies
  are tied and maximal, and the classifier answers none, not unknown.
\<close>

theorem tie_unknown_counterexample:
  "tied_maximum (snapshot ''p'' 0 1000000 1000000 1000000 1000000 1000000) \<and>
   analyzeBottleneck (NewStorageAnalyzer []) (snapshot ''p'' 0 1000000 1000000 1000000 1000000 1000000)
     \<noteq> BottleneckTypeUnknown"
  by (simp add: tied_maximum_def analyzeBottleneck_def snapshot_def QueueLatencyThreshold_def
      ReadLatencyThreshold_def WriteLatencyThreshold_def)

text \<open>
  Claim C2, amended. When two or more sub-latencies are equal and jointly maximal,
  none of the rules for queue, disk and network fires; the result is unknown when
  the read latency is above 10 ms or the write latency above 20 ms, and none
  otherwise.
\<close>

theorem tie_falls_through:
  "tied_maximum s \<Longrightarrow>
   analyzeBottleneck sa s =
     (if ReadLatencyThreshold < ReadLatency s \<or> WriteLatencyThreshold < WriteLatency s
      then BottleneckTypeUnknown else BottleneckTypeNone)"
  by (auto simp add: tied_maximum_def analyzeBottleneck_def)

theorem tie_falls_through_witness:
  "tied_maximum (snapshot ''p'' 0 11000000 0 3000000 3000000 1000000) \<and>
   analyzeBottleneck (NewStorageAnalyzer []) (snapshot ''p'' 0 11000000 0 3000000 3000000 1000000)
     = BottleneckTypeUnknown"
proof -
  let ?s = "snapshot ''p'' 0 11000000 0 3000000 3000000 1000000"
  have t: "tied_maximum ?s"
    by (simp add: tied_maximum_def snapshot_def)
  have r: "ReadLatencyThreshold < ReadLatency ?s"
    by (simp add: snapshot_def ReadLatencyThreshold_def)
  from tie_falls_through [OF t, of "NewStorageAnalyzer []"] r t show ?thesis
    by simp
qed

section \<open>The event correlator\<close>

lemma lookup_delete: "bpf_map_lookup_elem (bpf_map_delete_elem m k) k = None"
  by (induction m) (auto simp: bpf_map_lookup_elem_def bpf_map_delete_elem_def)

lemma update_latency_stats_frame:
  "requests (update_latency_stats s p d op) = requests s"
  "events (update_latency_stats s p d op) = events s"
  by (simp_all add: update_latency_stats_def Let_def split: option.splits)

text \<open>
  Claim C8. A completion for a key with no pending start returns 0 and leaves the
  state as it is: nothing is emitted. A completion for a key with a pending start
  returns 0; the record handed to user space is the pending one with its end time
  set, so its duration is the end time minus the start time, the same duration that
  enters the statistics; the pending entry is removed, and a further completion
  under the same key changes nothing, so at most one record is emitted per start.
\<close>

theorem block_rq_complete_correlates:
  "(bpf_map_lookup_elem (requests s) req = None \<longrightarrow>
      trace_block_rq_complete s req now delivered = (0, s)) \<and>
   (\<forall>ev. bpf_map_lookup_elem (requests s) req = Some ev \<longrightarrow>
      fst (trace_block_rq_complete s req now delivered) = 0 \<and>
      events (snd (trace_block_rq_complete s req now delivered)) =
        events s @ (if delivered then [ev\<lparr>io_end := now\<rparr>] else []) \<and>
      io_end (ev\<lparr>io_end := now\<rparr>) - io_start (ev\<lparr>io_end := now\<rparr>) = now - io_start ev \<and>
      latency_by_pid (snd (trace_block_rq_complete s req now delivered)) =
        latency_by_pid (update_latency_stats s (pid ev) (now - io_start ev) (operation ev)) \<and>
      bpf_map_lookup_elem (requests (snd (trace_block_rq_complete s req now delivered))) req = None \<and>
      trace_block_rq_complete (snd (trace_block_rq_complete s req now delivered)) req now' delivered' =
        (0, snd (trace_block_rq_complete s req now delivered)))"
  by (auto simp: trace_block_rq_complete_def Let_def lookup_delete update_latency_stats_frame)

lemma issued_example_requests:
  "requests issued_example = [(0xFFFF888000001000, issued_event)]"
  by (simp add: issued_example_def trace_block_rq_issue_def empty_bpf_state_def
      bpf_map_update_elem_def requests_max_entries_def issued_event_def REQ_OP_WRITE_def Let_def)

theorem block_rq_complete_correlates_witness:
  "trace_block_rq_complete empty_bpf_state 0xFFFF888000001000 250 True = (0, empty_bpf_state) \<and>
   bpf_map_lookup_elem (requests issued_example) 0xFFFF888000001000 = Some issued_event \<and>
   events (snd (trace_block_rq_complete issued_example 0xFFFF888000001000 250 True)) =
     [issued_event\<lparr>io_end := 250\<rparr>] \<and>
   io_end (issued_event\<lparr>io_end := 250\<rparr>) - io_start (issued_event\<lparr>io_end := 250\<rparr>) = 150 \<and>
   events (snd (trace_block_rq_complete
                  (snd (trace_block_rq_complete issued_example 0xFFFF888000001000 250 True))
                  0xFFFF888000001000 300 True)) =
     [issued_event\<lparr>io_end := 250\<rparr>]"
proof -
  have none: "bpf_map_lookup_elem (requests empty_bpf_state) 0xFFFF888000001000 = None"
    by (simp add: empty_bpf_state_def bpf_map_lookup_elem_def)
  have some: "bpf_map_lookup_elem (requests issued_example) 0xFFFF888000001000 = Some issued_event"
    by (simp add: issued_example_requests bpf_map_lookup_elem_def)
  have ev0: "events issued_example = []"
    by (simp add: issued_example_def trace_block_rq_issue_def empty_bpf_state_def Let_def)
  have st: "io_start issued_event = 100"
    by (simp add: issued_event_def)
  from block_rq_complete_correlates [of empty_bpf_state "0xFFFF888000001000" 250 True] none
  have a: "trace_block_rq_complete empty_bpf_state 0xFFFF888000001000 250 True = (0, empty_bpf_state)"
    by simp
  from block_rq_complete_correlates [of issued_example "0xFFFF888000001000" 250 True 300 True] some
  show ?thesis
    using a ev0 st by simp
qed

text \<open>
  The return probes of \<^verbatim>\<open>vfs_read\<close> and \<^verbatim>\<open>vfs_write\<close> correlate in the same
  way, but hand no record to user space: the duration only enters the statistics.
\<close>

lemma vfs_exit_correlates:
  "(bpf_map_lookup_elem (requests s) key = None \<longrightarrow> trace_vfs_exit s now key ret = (0, s)) \<and>
   (\<forall>ev. bpf_map_lookup_elem (requests s) key = Some ev \<longrightarrow>
      fst (trace_vfs_exit s now key ret) = 0 \<and>
      events (snd (trace_vfs_exit s now key ret)) = events s \<and>
      latency_by_pid (snd (trace_vfs_exit s now key ret)) =
        latency_by_pid (update_latency_stats s (pid ev) (now - io_start ev) (operation ev)) \<and>
      bpf_map_lookup_elem (requests (snd (trace_vfs_exit s now key ret))) key = None)"
  by (auto simp: trace_vfs_exit_def Let_def lookup_delete update_latency_stats_frame)

section \<open>The bounded history store\<close>

lemma AddMetrics_pod_fields:
  "maxHistoryPerPod (snd (AddMetrics_pod h sa podName m)) = maxHistoryPerPod sa"
  "anomalyThreshold (snd (AddMetrics_pod h sa podName m)) = anomalyThreshold sa"
  "fst (AddMetrics_pod h sa podName m) = h @ [m]"
  "metricsHistory (snd (AddMetrics_pod h sa podName m)) =
     (metricsHistory sa)(podName \<mapsto>
        (if int (length (history_of sa podName @ [length h])) > maxHistoryPerPod sa
         then drop 1 (history_of sa podName @ [length h])
         else history_of sa podName @ [length h]))"
  by (simp_all add: AddMetrics_pod_def new_def Let_def history_of_def)

lemma AddMetrics_pod_within_capacity:
  assumes "0 \<le> maxHistoryPerPod sa" and "within_capacity sa"
  shows "within_capacity (snd (AddMetrics_pod h sa podName m))"
proof -
  have "int (length (history_of sa podName)) \<le> maxHistoryPerPod sa"
    using assms by (auto simp: within_capacity_def history_of_def split: option.splits)
  with assms show ?thesis
    unfolding within_capacity_def AddMetrics_pod_fields by auto
qed

lemma AddMetrics_within_capacity:
  "0 \<le> maxHistoryPerPod sa \<Longrightarrow> within_capacity sa \<Longrightarrow> AddMetrics h sa batch = Inr (h', sa') \<Longrightarrow>
   within_capacity sa' \<and> maxHistoryPerPod sa' = maxHistoryPerPod sa"
proof (induction h sa batch rule: AddMetrics.induct)
  case (1 h sa)
  then show ?case by simp
next
  case (2 h sa podName rest)
  then show ?case by simp
next
  case (3 h sa podName podMetrics rest)
  obtain h1 sa1 where step: "AddMetrics_pod h sa podName podMetrics = (h1, sa1)"
    by (cases "AddMetrics_pod h sa podName podMetrics")
  have cap: "maxHistoryPerPod sa1 = maxHistoryPerPod sa"
    using AddMetrics_pod_fields(1) [of h sa podName podMetrics] step by simp
  have inv: "within_capacity sa1"
    using AddMetrics_pod_within_capacity [OF "3.prems"(1,2), of h podName podMetrics] step by simp
  have rest: "AddMetrics h1 sa1 rest = Inr (h', sa')"
    using "3.prems"(3) step by simp
  have "0 \<le> maxHistoryPerPod sa1"
    using cap "3.prems"(1) by simp
  from "3.IH" [OF step [symmetric] this inv rest] cap
  show ?case by simp
qed

lemma AddMetrics_calls_within_capacity:
  "0 \<le> maxHistoryPerPod sa \<Longrightarrow> within_capacity sa \<Longrightarrow>
   AddMetrics_calls h sa batches = Inr (h', sa') \<Longrightarrow>
   within_capacity sa' \<and> maxHistoryPerPod sa' = maxHistoryPerPod sa"
proof (induction batches arbitrary: h sa)
  case Nil
  then show ?case by simp
next
  case (Cons batch batches)
  from Cons.prems(3) obtain h1 sa1 where
    one: "AddMetrics h sa batch = Inr (h1, sa1)" and
    more: "AddMetrics_calls h1 sa1 batches = Inr (h', sa')"
    by (auto split: sum.splits)
  from AddMetrics_within_capacity [OF Cons.prems(1,2) one]
  have "within_capacity sa1" "maxHistoryPerPod sa1 = maxHistoryPerPod sa"
    by simp_all
  with Cons.IH [of sa1 h1] more Cons.prems(1) show ?case
    by simp
qed

lemma NewStorageAnalyzer_options:
  assumes "\<forall>option \<in> set options. (\<exists>c. option = WithMaxHistoryPerPod c) \<or> (\<exists>t. option = WithAnomalyThreshold t)"
  shows "1 \<le> maxHistoryPerPod (NewStorageAnalyzer options) \<and>
         metricsHistory (NewStorageAnalyzer options) = Map.empty"
proof -
  have "1 \<le> maxHistoryPerPod (fold (\<lambda>option sa. option sa) options sa) \<and>
        metricsHistory (fold (\<lambda>option sa. option sa) options sa) = Map.empty"
    if "1 \<le> maxHistoryPerPod sa" "metricsHistory sa = Map.empty" for sa
    using assms that
  proof (induction options arbitrary: sa)
    case Nil
    then show ?case by simp
  next
    case (Cons option options)
    from Cons.prems(1) have "1 \<le> maxHistoryPerPod (option sa) \<and> metricsHistory (option sa) = Map.empty"
      using Cons.prems(2,3) by (auto simp: WithMaxHistoryPerPod_def WithAnomalyThreshold_def)
    with Cons.IH [of "option sa"] Cons.prems(1) show ?case by simp
  qed
  then show ?thesis by (simp add: NewStorageAnalyzer_def)
qed

text \<open>
  Claim C7. Starting from an analyzer with capacity at least 1 whose histories are
  within capacity (as every newly constructed analyzer is), after any sequence of
  AddMetrics calls every history has at most capacity entries, and the capacity is
  unchanged. One insertion stores a copy of the snapshot at a fresh address and
  appends that address to the pod's history; when the length then exceeds the
  capacity, exactly the head is dropped.
\<close>

theorem AddMetrics_history_bounded:
  assumes "1 \<le> maxHistoryPerPod sa0" and "within_capacity sa0"
  shows "(AddMetrics_calls h0 sa0 batches = Inr (h, sa) \<longrightarrow>
            within_capacity sa \<and> maxHistoryPerPod sa = maxHistoryPerPod sa0) \<and>
         fst (AddMetrics_pod h0 sa0 podName m) ! length h0 = m \<and>
         metricsHistory (snd (AddMetrics_pod h0 sa0 podName m)) podName =
           Some (if int (length (history_of sa0 podName)) + 1 > maxHistoryPerPod sa0
                 then tl (history_of sa0 podName) @ [length h0]
                 else history_of sa0 podName @ [length h0])"
proof -
  have a: "AddMetrics_calls h0 sa0 batches = Inr (h, sa) \<longrightarrow>
            within_capacity sa \<and> maxHistoryPerPod sa = maxHistoryPerPod sa0"
    using AddMetrics_calls_within_capacity [of sa0 h0 batches h sa] assms by simp
  have b: "fst (AddMetrics_pod h0 sa0 podName m) ! length h0 = m"
    by (simp add: AddMetrics_pod_fields)
  have "drop 1 (history_of sa0 podName @ [length h0]) = tl (history_of sa0 podName) @ [length h0]"
    if "int (length (history_of sa0 podName)) + 1 > maxHistoryPerPod sa0"
    using that assms(1) by (cases "history_of sa0 podName") auto
  then have c: "metricsHistory (snd (AddMetrics_pod h0 sa0 podName m)) podName =
           Some (if int (length (history_of sa0 podName)) + 1 > maxHistoryPerPod sa0
                 then tl (history_of sa0 podName) @ [length h0]
                 else history_of sa0 podName @ [length h0])"
    by (simp add: AddMetrics_pod_fields)
  from a b c show ?thesis by blast
qed

lemma three_calls_run:
  "\<exists>sa. AddMetrics_calls [] (NewStorageAnalyzer [WithMaxHistoryPerPod 2]) three_calls =
          Inr ([pod_a 1 1 10, pod_a 2 2 20, pod_a 3 3 30], sa) \<and>
        metricsHistory sa ''a'' = Some [1, 2]"
  by (simp add: three_calls_def NewStorageAnalyzer_def WithMaxHistoryPerPod_def AddMetrics_pod_def
      new_def Let_def detectAnomaly_def detectAnomaly_history_def)

theorem AddMetrics_history_bounded_witness:
  "1 \<le> maxHistoryPerPod (NewStorageAnalyzer [WithMaxHistoryPerPod 2]) \<and>
   within_capacity (NewStorageAnalyzer [WithMaxHistoryPerPod 2]) \<and>
   (case AddMetrics_calls [] (NewStorageAnalyzer [WithMaxHistoryPerPod 2]) three_calls of
      Inl p \<Rightarrow> False
    | Inr (h, sa) \<Rightarrow> metricsHistory sa ''a'' = Some [1, 2] \<and> within_capacity sa \<and>
                      maxHistoryPerPod sa = 2)"
proof -
  let ?sa0 = "NewStorageAnalyzer [WithMaxHistoryPerPod 2]"
  have cap: "maxHistoryPerPod ?sa0 = 2"
    by (simp add: NewStorageAnalyzer_def WithMaxHistoryPerPod_def)
  have inv: "within_capacity ?sa0"
    by (simp add: within_capacity_def NewStorageAnalyzer_def WithMaxHistoryPerPod_def)
  from three_calls_run obtain sa where
    run: "AddMetrics_calls [] ?sa0 three_calls = Inr ([pod_a 1 1 10, pod_a 2 2 20, pod_a 3 3 30], sa)"
    and hist: "metricsHistory sa ''a'' = Some [1, 2]"
    by blast
  from AddMetrics_history_bounded [of ?sa0 "[]" three_calls _ sa] cap inv run
  have "within_capacity sa \<and> maxHistoryPerPod sa = 2"
    by simp
  with cap inv run hist show ?thesis
    by simp
qed

section \<open>Trend of the latency\<close>

text \<open>
  Claim C9. With no history for the pod, or fewer than two entries, GetLatencyTrend
  returns the error value for insufficient data (with the placeholder trend
  unknown and change 0). With two or more entries it returns no error and one of
  the trends increased, decreased, stable: the two cases cannot be confused.
\<close>

theorem GetLatencyTrend_insufficient_data:
  "(insufficient_data sa podName \<longrightarrow>
      GetLatencyTrend h sa now podName duration =
        (''unknown'', fconst 0, Some (InsufficientData podName))) \<and>
   (\<not> insufficient_data sa podName \<longrightarrow>
      snd (snd (GetLatencyTrend h sa now podName duration)) = None \<and>
      fst (GetLatencyTrend h sa now podName duration) \<in> {''increased'', ''decreased'', ''stable''})"
  by (auto simp: insufficient_data_def GetLatencyTrend_def Let_def split: option.splits)

theorem GetLatencyTrend_insufficient_data_witness:
  "insufficient_data (trend_analyzer [0]) ''a'' \<and>
   GetLatencyTrend trend_heap (trend_analyzer [0]) 300000000000 ''a'' 300000000000 =
     (''unknown'', fconst 0, Some (InsufficientData ''a'')) \<and>
   insufficient_data (trend_analyzer [0, 1]) ''b'' \<and>
   GetLatencyTrend trend_heap (trend_analyzer [0, 1]) 300000000000 ''b'' 300000000000 =
     (''unknown'', fconst 0, Some (InsufficientData ''b'')) \<and>
   \<not> insufficient_data (trend_analyzer [0, 1]) ''a'' \<and>
   snd (snd (GetLatencyTrend trend_heap (trend_analyzer [0, 1]) 300000000000 ''a'' 300000000000)) = None"
proof -
  have a: "insufficient_data (trend_analyzer [0]) ''a''"
    by (simp add: insufficient_data_def trend_analyzer_def)
  have b: "insufficient_data (trend_analyzer [0, 1]) ''b''"
    by (simp add: insufficient_data_def trend_analyzer_def)
  have c: "\<not> insufficient_data (trend_analyzer [0, 1]) ''a''"
    by (simp add: insufficient_data_def trend_analyzer_def)
  from GetLatencyTrend_insufficient_data [of "trend_analyzer [0]" "''a''" trend_heap 300000000000 300000000000]
       GetLatencyTrend_insufficient_data [of "trend_analyzer [0, 1]" "''b''" trend_heap 300000000000 300000000000]
       GetLatencyTrend_insufficient_data [of "trend_analyzer [0, 1]" "''a''" trend_heap 300000000000 300000000000]
       a b c
  show ?thesis by blast
qed

section \<open>Ranking of the slowest pods\<close>

lemma latest_latencies_eq:
  "latest_latencies h sa keys =
     map (\<lambda>podName. \<lparr>pl_podName = podName,
                      pl_latency = combined_latency h (last (history_of sa podName)),
                      pl_metrics = last (history_of sa podName)\<rparr>)
         (filter (\<lambda>podName. history_of sa podName \<noteq> []) keys)"
  by (induction keys)
     (auto simp: latest_latencies_def history_of_def combined_latency_def Let_def split: option.splits)

lemma ranked_pods:
  assumes "distinct keys" and "set keys = dom (metricsHistory sa)"
  shows "mset (filter (\<lambda>podName. history_of sa podName \<noteq> []) keys) =
         mset_set {podName. history_of sa podName \<noteq> []}"
proof -
  have "{podName. history_of sa podName \<noteq> []} = {podName \<in> set keys. history_of sa podName \<noteq> []}"
    using assms(2) by (auto simp: history_of_def split: option.splits)
  moreover have "mset (filter (\<lambda>podName. history_of sa podName \<noteq> []) keys) =
     mset_set (set (filter (\<lambda>podName. history_of sa podName \<noteq> []) keys))"
    using assms(1) by (metis distinct_filter mset_set_set)
  ultimately show ?thesis by (simp only: set_filter)
qed

text \<open>
  A call returns only when the capacity passes the check of \<^verbatim>\<open>make\<close>, and what it
  returns is the head of a ranking of the pods that have a snapshot.
\<close>

lemma GetTopNSlowPods_ranking:
  assumes "GetTopNSlowPods h sa n (Inr ps)"
  shows "0 \<le> n \<and> pointer_size * n \<le> maxAlloc \<and>
         (\<exists>ranking.
           ps = take (nat n) ranking \<and>
           mset ranking = image_mset (\<lambda>podName. last (history_of sa podName))
                            (mset_set {podName. history_of sa podName \<noteq> []}) \<and>
           sorted_wrt (\<lambda>p q. combined_latency h q \<le> combined_latency h p) ranking \<and>
           length (take (nat n) ranking) =
             min (nat n) (card {podName. history_of sa podName \<noteq> []}))"
  using assms
proof (cases rule: GetTopNSlowPods.cases)
  case (iterating keys)
  from iterating(3) show ?thesis
  proof (cases rule: GetTopNSlowPods_iterating.cases)
    case (ranked latencies)
    let ?all = "latest_latencies h sa keys"
    let ?ranking = "map pl_metrics latencies"
    from ranked(2) have perm: "mset latencies = mset ?all"
      and srt: "sorted_wrt (\<lambda>a b. \<not> pl_latency b > pl_latency a) latencies"
      by (simp_all add: sort_Slice_def)
    have key: "pl_latency a = combined_latency h (pl_metrics a)" if "a \<in> set latencies" for a
    proof -
      from that perm have "a \<in> set ?all" by (metis set_mset_mset)
      then show ?thesis by (auto simp: latest_latencies_eq)
    qed
    have r1: "ps = take (nat n) ?ranking"
      using ranked(1) by (simp add: take_map)
    have "mset ?ranking = image_mset pl_metrics (mset ?all)"
      using perm by (metis mset_map)
    also have "\<dots> = image_mset (\<lambda>podName. last (history_of sa podName))
                       (mset (filter (\<lambda>podName. history_of sa podName \<noteq> []) keys))"
      by (simp add: latest_latencies_eq multiset.map_comp comp_def)
    finally have r2: "mset ?ranking = image_mset (\<lambda>podName. last (history_of sa podName))
                              (mset_set {podName. history_of sa podName \<noteq> []})"
      using ranked_pods [OF iterating(1,2)] by simp
    have r3: "sorted_wrt (\<lambda>p q. combined_latency h q \<le> combined_latency h p) ?ranking"
      unfolding sorted_wrt_map
      by (rule sorted_wrt_mono_rel [OF _ srt]) (auto simp: key)
    have "length ?ranking = size (mset ?ranking)" by simp
    also have "\<dots> = card {podName. history_of sa podName \<noteq> []}"
      unfolding r2 by simp
    finally have r4: "length (take (nat n) ?ranking) =
               min (nat n) (card {podName. history_of sa podName \<noteq> []})"
      by (simp add: min.commute)
    from r1 r2 r3 r4 ranked(3,4) show ?thesis by blast
  qed
qed





text \<open>
  With two pods of equal combined latency a query for the slowest pod may answer
  either of them: the map is iterated in an order the runtime chooses, and the
  comparison of the sort does not tell the two entries apart.
\<close>

lemma GetTopNSlowPods_tie:
  "GetTopNSlowPods tie_heap tie_analyzer 1 (Inr [0]) \<and>
   GetTopNSlowPods tie_heap tie_analyzer 1 (Inr [1])"
proof
  let ?a = "\<lparr>pl_podName = ''a'', pl_latency = 5, pl_metrics = 0\<rparr>"
  let ?b = "\<lparr>pl_podName = ''b'', pl_latency = 5, pl_metrics = 1\<rparr>"
  have ab: "set [''a'', ''b''] = dom (metricsHistory tie_analyzer)"
    and ba: "set [''b'', ''a''] = dom (metricsHistory tie_analyzer)"
    by (auto simp: tie_analyzer_def)
  have all_ab: "latest_latencies tie_heap tie_analyzer [''a'', ''b''] = [?a, ?b]"
    and all_ba: "latest_latencies tie_heap tie_analyzer [''b'', ''a''] = [?b, ?a]"
    by (simp_all add: latest_latencies_def tie_analyzer_def tie_heap_def snapshot_def)
  have kept_ab: "sort_Slice (\<lambda>a b. pl_latency a > pl_latency b)
              (latest_latencies tie_heap tie_analyzer [''a'', ''b'']) [?a, ?b]"
    unfolding all_ab by (simp add: sort_Slice_def)
  have kept_ba: "sort_Slice (\<lambda>a b. pl_latency a > pl_latency b)
              (latest_latencies tie_heap tie_analyzer [''b'', ''a'']) [?b, ?a]"
    unfolding all_ba by (simp add: sort_Slice_def)
  have cap: "pointer_size * 1 \<le> maxAlloc"
    by (simp add: pointer_size_def maxAlloc_def)
  from GetTopNSlowPods.iterating [OF _ ab GetTopNSlowPods_iterating.ranked [OF kept_ab _ cap]]
  show "GetTopNSlowPods tie_heap tie_analyzer 1 (Inr [0])" by simp
  from GetTopNSlowPods.iterating [OF _ ba GetTopNSlowPods_iterating.ranked [OF kept_ba _ cap]]
  show "GetTopNSlowPods tie_heap tie_analyzer 1 (Inr [1])" by simp
qed

lemma three_analyzer_history:
  "metricsHistory three_analyzer = [''a'' \<mapsto> [0], ''b'' \<mapsto> [1], ''c'' \<mapsto> [2]]"
  by (simp add: three_analyzer_def three_heap_def NewStorageAnalyzer_def AddMetrics_pod_def new_def
      Let_def detectAnomaly_def detectAnomaly_history_def numeral_2_eq_2)

lemma three_analyzer_run:
  "\<exists>sa. AddMetrics [] (NewStorageAnalyzer [])
          [(''a'', Some (three_heap ! 0)), (''b'', Some (three_heap ! 1)), (''c'', Some (three_heap ! 2))]
        = Inr (three_heap, sa)"
  by (simp add: three_heap_def NewStorageAnalyzer_def AddMetrics_pod_def new_def
      Let_def detectAnomaly_def detectAnomaly_history_def)







section \<open>Sharing of snapshots with callers\<close>

lemma three_pods: "{podName. history_of three_analyzer podName \<noteq> []} = {''a'', ''b'', ''c''}"
  by (auto simp: history_of_def three_analyzer_history split: if_splits)

lemma GetTopNSlowPods_aliases_history:
  assumes "GetTopNSlowPods h sa n (Inr ps)" and "p \<in> set ps"
  shows "\<exists>podName history. metricsHistory sa podName = Some history \<and> history \<noteq> [] \<and>
           p = last history"
proof -
  from GetTopNSlowPods_ranking [OF assms(1)] obtain ranking where
    ps: "ps = take (nat n) ranking" and
    all: "mset ranking = image_mset (\<lambda>podName. last (history_of sa podName))
                            (mset_set {podName. history_of sa podName \<noteq> []})"
    by auto
  from assms(2) ps have "p \<in># mset ranking"
    by (auto dest: in_set_takeD)
  with all obtain podName where
    "podName \<in># mset_set {podName. history_of sa podName \<noteq> []}" "p = last (history_of sa podName)"
    by auto
  then have "history_of sa podName \<noteq> []" "p = last (history_of sa podName)"
    by (cases "finite {podName. history_of sa podName \<noteq> []}"; simp)+
  then show ?thesis
    by (auto simp: history_of_def split: option.splits)
qed

lemma GetAllMetrics_loop_fresh:
  assumes "GetAllMetrics_loop sm keys (h0, r0) = (h', result)"
    and "\<forall>k a. r0 k = Some a \<longrightarrow> n \<le> a \<and> a < length h0" and "n \<le> length h0"
    and "\<forall>k v. metrics sm k = Some v \<longrightarrow> v < n"
  shows "take n h' = take n h0 \<and>
         (\<forall>k a. result k = Some a \<longrightarrow> n \<le> a \<and> a < length h')"
  using assms
proof (induction keys arbitrary: h0 r0)
  case Nil
  then show ?case by simp
next
  case (Cons k keys)
  show ?case
  proof (cases "metrics sm k")
    case None
    with Cons.prems(1) have "GetAllMetrics_loop sm keys (h0, r0) = (h', result)" by simp
    from Cons.IH [OF this Cons.prems(2,3,4)] show ?thesis .
  next
    case (Some v)
    with Cons.prems(1) have run:
      "GetAllMetrics_loop sm keys (h0 @ [h0 ! v], r0(k \<mapsto> length h0)) = (h', result)"
      by (simp add: new_def)
    have a: "\<forall>k' a. (r0(k \<mapsto> length h0)) k' = Some a \<longrightarrow> n \<le> a \<and> a < length (h0 @ [h0 ! v])"
      using Cons.prems(2,3) by (auto simp: less_Suc_eq)
    have b: "n \<le> length (h0 @ [h0 ! v])"
      using Cons.prems(3) by simp
    from Cons.IH [OF run a b Cons.prems(4)] Cons.prems(3) show ?thesis by simp
  qed
qed

lemma GetAllMetrics_example:
  "GetAllMetrics monitor_heap monitor_example [''a''] = (monitor_heap @ [monitor_heap ! 0], [''a'' \<mapsto> 1])"
  by (simp add: GetAllMetrics_def monitor_example_def monitor_heap_def new_def)

text \<open>
  \<^verbatim>\<open>GetAllMetrics\<close> of the monitor hands out copies: every returned pointer is a
  fresh address, the existing snapshots are untouched, and a write through a
  returned pointer does not reach a snapshot the monitor holds.
\<close>

lemma GetAllMetrics_returns_copies:
  assumes "GetAllMetrics h sm keys = (h', result)"
    and "\<forall>k v. metrics sm k = Some v \<longrightarrow> v < length h"
    and "result k = Some a" and "metrics sm k' = Some v"
  shows "length h \<le> a \<and> a < length h' \<and> h' ! v = h ! v \<and> (h'[a := x]) ! v = h ! v"
proof -
  from GetAllMetrics_loop_fresh [of sm keys h Map.empty h' result "length h"] assms(1,2)
  have pre: "take (length h) h' = h" and
       fresh: "\<forall>k a. result k = Some a \<longrightarrow> length h \<le> a \<and> a < length h'"
    by (simp_all add: GetAllMetrics_def)
  from assms(2,4) have v: "v < length h" by blast
  from fresh assms(3) have a: "length h \<le> a" "a < length h'" by auto
  have "h' ! v = take (length h) h' ! v" using v by simp
  then have "h' ! v = h ! v" using pre by simp
  with a v show ?thesis by simp
qed

text \<open>
  Claim C3 at a concrete state: three pods added through AddMetrics, then a query
  for the slowest pod. The query returns address 1, the very address stored as the
  latest entry of pod b's history. When the caller writes through it, the stored
  history reads differently and the next query answers pod c instead of pod b.
\<close>

theorem GetTopNSlowPods_shares_snapshot:
  "GetTopNSlowPods three_heap three_analyzer 1 (Inr [1]) \<and>
   metricsHistory three_analyzer ''b'' = Some [1] \<and>
   map (\<lambda>p. (three_heap[1 := zeroed (three_heap ! 1)]) ! p) (history_of three_analyzer ''b'') \<noteq>
     map (\<lambda>p. three_heap ! p) (history_of three_analyzer ''b'') \<and>
   GetTopNSlowPods (three_heap[1 := zeroed (three_heap ! 1)]) three_analyzer 1 (Inr [2]) \<and>
   \<not> GetTopNSlowPods (three_heap[1 := zeroed (three_heap ! 1)]) three_analyzer 1 (Inr [1])"
proof -
  let ?h = "three_heap[1 := zeroed (three_heap ! 1)]"
  let ?a = "\<lparr>pl_podName = ''a'', pl_latency = 5000000, pl_metrics = 0\<rparr>"
  let ?b = "\<lparr>pl_podName = ''b'', pl_latency = 30000000, pl_metrics = 1\<rparr>"
  let ?z = "\<lparr>pl_podName = ''b'', pl_latency = 0, pl_metrics = 1\<rparr>"
  let ?c = "\<lparr>pl_podName = ''c'', pl_latency = 12000000, pl_metrics = 2\<rparr>"
  have dom: "set [''a'', ''b'', ''c''] = dom (metricsHistory three_analyzer)"
    by (auto simp: three_analyzer_history)
  have all: "latest_latencies three_heap three_analyzer [''a'', ''b'', ''c''] = [?a, ?b, ?c]"
    by (simp add: latest_latencies_def three_analyzer_history three_heap_def snapshot_def)
  have all': "latest_latencies ?h three_analyzer [''a'', ''b'', ''c''] = [?a, ?z, ?c]"
    by (simp add: latest_latencies_def three_analyzer_history three_heap_def snapshot_def zeroed_def)
  have srt: "sort_Slice (\<lambda>a b. pl_latency a > pl_latency b)
              (latest_latencies three_heap three_analyzer [''a'', ''b'', ''c'']) [?b, ?c, ?a]"
    unfolding all by (simp add: sort_Slice_def)
  have srt': "sort_Slice (\<lambda>a b. pl_latency a > pl_latency b)
              (latest_latencies ?h three_analyzer [''a'', ''b'', ''c'']) [?c, ?a, ?z]"
    unfolding all' by (simp add: sort_Slice_def)
  have cap: "pointer_size * 1 \<le> maxAlloc"
    by (simp add: pointer_size_def maxAlloc_def)
  from GetTopNSlowPods.iterating [OF _ dom GetTopNSlowPods_iterating.ranked [OF srt _ cap]]
  have before: "GetTopNSlowPods three_heap three_analyzer 1 (Inr [1])" by simp
  from GetTopNSlowPods.iterating [OF _ dom GetTopNSlowPods_iterating.ranked [OF srt' _ cap]]
  have after: "GetTopNSlowPods ?h three_analyzer 1 (Inr [2])" by simp
  have stored: "metricsHistory three_analyzer ''b'' = Some [1]"
    by (simp add: three_analyzer_history)
  have changed: "map (\<lambda>p. ?h ! p) (history_of three_analyzer ''b'') \<noteq>
                 map (\<lambda>p. three_heap ! p) (history_of three_analyzer ''b'')"
    by (simp add: history_of_def stored three_heap_def zeroed_def snapshot_def)
  have gone: "\<not> GetTopNSlowPods ?h three_analyzer 1 (Inr [1])"
  proof
    assume "GetTopNSlowPods ?h three_analyzer 1 (Inr [1])"
    from GetTopNSlowPods_ranking [OF this] obtain ranking where
      top: "[1] = take (nat 1) ranking" and
      all: "mset ranking = image_mset (\<lambda>podName. last (history_of three_analyzer podName))
                            (mset_set {podName. history_of three_analyzer podName \<noteq> []})" and
      srt: "sorted_wrt (\<lambda>p q. combined_latency ?h q \<le> combined_latency ?h p) ranking"
      by auto
    from top obtain rest where r: "ranking = 1 # rest"
      by (cases ranking) auto
    have "2 \<in># mset ranking"
      unfolding all three_pods
      by (auto simp: history_of_def three_analyzer_history intro!: image_eqI [where x = "''c''"])
    with r have "2 \<in> set rest" by auto
    with srt r have "combined_latency ?h 2 \<le> combined_latency ?h 1" by auto
    then show False
      by (simp add: combined_latency_def three_heap_def snapshot_def zeroed_def)
  qed
  from before stored changed after gone show ?thesis by blast
qed

section \<open>Facts about float64 rounding\<close>

lemma float64_of_uint64_nat: "float64_of_uint64 w = float64_of_nat (unat w)"
  by (simp add: float64_of_uint64_def float64_of_nat_def)

lemma float64_of_int_nat: "float64_of_int (int n) = float64_of_nat n"
  by (simp add: float64_of_int_def float64_of_nat_def)

lemma flt_NaN: "\<not> flt x NaN" "\<not> flt NaN x"
  by (cases x; simp)+

lemma round_to_even_of_int: "round_to_even (of_int j) = j"
  by (simp add: round_to_even_def)

lemma round_magnitude_nat:
  assumes "k < 2 ^ 53"
  shows "round_magnitude (real k) = real k"
proof (cases "k = 0")
  case True
  then show ?thesis by (simp add: round_magnitude_def)
next
  case False
  define e where "e = floorlog 2 k"
  have e1: "1 \<le> e"
    using False by (simp add: e_def floorlog_def)
  have e53: "e \<le> 53"
    unfolding e_def using assms by (intro floorlog_leI) auto
  have ex: "exponent_of (real k) = int e - 1"
    using False by (simp add: exponent_of_def e_def)
  have q: "quantum (real k) = 1 / 2 ^ (53 - e)"
  proof -
    have "max (int e - 1) (- 1022) - 52 = - int (53 - e)"
      using e1 e53 by auto
    then have "quantum (real k) = 2 powi (- int (53 - e))"
      by (simp only: quantum_def ex)
    also have "\<dots> = inverse (2 powi int (53 - e))"
      by (rule power_int_minus)
    also have "\<dots> = 1 / 2 ^ (53 - e)"
      by (simp add: inverse_eq_divide)
    finally show ?thesis .
  qed
  have "real k / quantum (real k) = of_int (int (k * 2 ^ (53 - e)))"
    by (simp add: q)
  then have "round_to_even (real k / quantum (real k)) = int (k * 2 ^ (53 - e))"
    by (simp only: round_to_even_of_int)
  then show ?thesis
    using False by (simp add: round_magnitude_def q)
qed



lemma float64_of_nat_exact:
  assumes "k < 2 ^ 53"
  shows "float64_of_nat k = Finite False (real k)"
proof -
  have "real k < 2 ^ 53" using assms
    by (metis of_nat_less_iff of_nat_numeral of_nat_power)
  also have "\<dots> \<le> (2::real) ^ 1024" by (rule power_increasing) simp_all
  finally show ?thesis
    by (simp add: float64_of_nat_def round64_def round_magnitude_nat [OF assms])
qed



lemma round_to_even_ge_floor: "\<lfloor>k\<rfloor> \<le> round_to_even k"
  by (simp add: round_to_even_def Let_def)

lemma round_magnitude_nat_pos:
  assumes "0 < n"
  shows "0 < round_magnitude (real n)"
proof -
  define e where "e = floorlog 2 n"
  have e1: "1 \<le> e"
    using assms by (simp add: e_def floorlog_def)
  have ex: "exponent_of (real n) = int e - 1"
    using assms by (simp add: exponent_of_def e_def)
  have low: "2 ^ (e - 1) \<le> n"
    using floorlog_bounds [of n 2] assms by (simp add: e_def)
  have "max (int e - 1) (- 1022) - 52 = int (e - 1) - 52"
    using e1 by auto
  then have q: "quantum (real n) = 2 powi (int (e - 1) - 52)"
    by (simp only: quantum_def ex)
  have qpos: "0 < quantum (real n)"
    by (simp add: q)
  have "quantum (real n) \<le> 2 powi (int (e - 1))"
    unfolding q by (rule power_int_increasing) simp_all
  also have "\<dots> = real (2 ^ (e - 1))"
    by simp
  also have "\<dots> \<le> real n"
    using low by (simp only: of_nat_le_iff)
  finally have "1 \<le> real n / quantum (real n)"
    using qpos by (simp add: le_divide_eq)
  then have "1 \<le> \<lfloor>real n / quantum (real n)\<rfloor>"
    by simp
  with round_to_even_ge_floor [of "real n / quantum (real n)"]
  have "0 < round_to_even (real n / quantum (real n))"
    by linarith
  with qpos assms show ?thesis
    by (simp add: round_magnitude_def)
qed

lemma float64_of_nat_pos:
  assumes "0 < n"
  shows "(\<exists>y. 0 < y \<and> float64_of_nat n = Finite False y) \<or> float64_of_nat n = Infinity False"
  using round_magnitude_nat_pos [OF assms]
  by (simp add: float64_of_nat_def round64_def Let_def)

lemma fdiv_zero_nat:
  assumes "0 < n"
  shows "fdiv (Finite False 0) (float64_of_nat n) = Finite False 0"
proof -
  have z: "round64 False 0 = Finite False 0"
    by (simp add: round64_def round_magnitude_def)
  from float64_of_nat_pos [OF assms] show ?thesis
    by (auto simp: z)
qed

lemma population_mean_constant:
  assumes "0 < n" and "n * v < 2 ^ 53"
  shows "population_mean (replicate n v) = Finite False (real v)"
proof (cases "v = 0")
  case True
  have "float64_of_nat 0 = Finite False 0"
    by (simp add: float64_of_nat_def round64_def round_magnitude_def)
  with True fdiv_zero_nat [OF assms(1)] show ?thesis
    by (simp add: population_mean_def sum_list_replicate)
next
  case False
  then have "n \<le> n * v" and "v \<le> n * v"
    using assms(1) by simp_all
  with assms(2) have n: "n < 2 ^ 53" and v: "v < 2 ^ 53"
    by linarith+
  have "fdiv (Finite False (real (n * v))) (Finite False (real n)) = round64 False (real v)"
    using assms(1) by simp
  also have "\<dots> = Finite False (real v)"
    using float64_of_nat_exact [OF v] by (simp add: float64_of_nat_def)
  finally have "fdiv (float64_of_nat (n * v)) (float64_of_nat n) = Finite False (real v)"
    by (simp only: float64_of_nat_exact [OF n] float64_of_nat_exact [OF assms(2)])
  moreover have "sum_list (replicate n v) = n * v"
    by (simp add: sum_list_replicate)
  ultimately show ?thesis
    by (simp only: population_mean_def length_replicate)
qed

lemma squared_deviation_zero:
  "squared_deviation (Finite False (real v)) v = Finite False 0" if "v < 2 ^ 53"
  by (simp add: squared_deviation_def float64_of_nat_exact [OF that] fsub_def signed_def
      round64_def round_magnitude_def)

lemma fsum_zeros: "foldl fadd (Finite False 0) (replicate n (Finite False 0)) = Finite False 0"
  by (induction n) (simp_all add: signed_def)

lemma population_variance_constant:
  assumes "0 < n" and "n * v < 2 ^ 53"
  shows "population_variance (replicate n v) = Finite False 0"
proof -
  have "v \<le> n * v" using assms(1) by simp
  with assms(2) have v: "v < 2 ^ 53" by linarith
  have mean: "population_mean (replicate n v) = Finite False (real v)"
    by (rule population_mean_constant [OF assms])
  show ?thesis
    by (simp add: population_variance_def mean squared_deviation_zero [OF v] fsum_def fconst_def
        fsum_zeros fdiv_zero_nat [OF assms(1)])
qed

lemma z_score_constant:
  assumes "0 < n" and "n * v < 2 ^ 53"
  shows "z_score (replicate n v) = NaN"
proof -
  have "v \<le> n * v" using assms(1) by simp
  with assms(2) have v: "v < 2 ^ 53" by linarith
  have "last (replicate n v) = v"
    using assms(1) by simp
  then show ?thesis
    by (simp add: z_score_def population_mean_constant [OF assms]
        population_variance_constant [OF assms] float64_of_nat_exact [OF v] fsub_def signed_def)
qed


subsection \<open>Signs\<close>



















subsection \<open>Evaluation\<close>

lemma floorlog_numeral: "floorlog 2 (numeral k) = num_bits k"
proof (induction k)
  case One
  show ?case by (simp add: compute_floorlog)
next
  case (Bit0 k)
  have "floorlog 2 (numeral (num.Bit0 k)) = floorlog 2 (numeral (num.Bit0 k) div 2) + 1"
    by (subst compute_floorlog) simp
  also have "numeral (num.Bit0 k) div (2::nat) = numeral k"
    by simp
  finally show ?case using Bit0 by simp
next
  case (Bit1 k)
  have "floorlog 2 (numeral (num.Bit1 k)) = floorlog 2 (numeral (num.Bit1 k) div 2) + 1"
    by (subst compute_floorlog) simp
  also have "numeral (num.Bit1 k) div (2::nat) = numeral k"
    by simp
  finally show ?case using Bit1 by simp
qed

lemma floorlog_small: "floorlog 2 0 = 0" "floorlog 2 1 = 1" "floorlog 2 (Suc 0) = 1"
  by (simp_all add: compute_floorlog)

lemma round64_eval:
  "round64 s m = (if m = 0 then Finite s 0 else round64_at s m (exponent_of m))"
  by (simp add: round64_def round_magnitude_def quantum_def round64_at_def Let_def)

lemma round64_at_eval:
  "round64_at s m e =
     (let q = 2 powi (max e (- 1022) - 52); k = round_to_even (m / q); y = of_int k * q
      in if 179769313486231590772930519078902473361797697894230657273430081157732675805500963132708477322407536021120113879871393357658789768814416622492847430639474124377767893424865485276302219601246094119453082952085005768838150682342462881473913110540827237163350510684586298239947245938479716304835356329624224137216 \<le> y then Infinity s else Finite s y)"
  by (simp add: round64_at_def)

lemmas float_eval = round64_eval round64_at_eval exponent_of_def round_to_even_def
  floorlog_numeral floorlog_small Let_def signed_def fsub_def float64_of_nat_def fconst_def fgt_def

lemma foldl_replicate_numeral:
  "foldl f a (replicate (numeral k) x) = foldl f (f a x) (replicate (pred_numeral k) x)"
  by (simp add: numeral_eq_Suc)

lemma replicate_snoc_same: "replicate n x @ [x] = replicate (Suc n) x"
  by (simp add: replicate_append_same)

section \<open>Anomaly detection\<close>

lemma fold_latency_sums:
  "fold (\<lambda>metrics (sr, sw). (sr + ReadLatency metrics, sw + WriteLatency metrics)) history (a, b) =
     (a + sum_list (map ReadLatency history), b + sum_list (map WriteLatency history))"
  by (induction history arbitrary: a b) (simp_all add: add.assoc)

lemma unat_sum_list: "unat (sum_list ws) = sum_list (map unat ws) mod 2 ^ LENGTH('a)"
  for ws :: "'a::len word list"
  by (induction ws) (simp_all add: unat_word_ariths mod_simps)

lemma fold_squared_deviations:
  "fold (\<lambda>metrics (qr, qw).
           let diffRead = fsub (float64_of_uint64 (ReadLatency metrics)) avgRead;
               diffWrite = fsub (float64_of_uint64 (WriteLatency metrics)) avgWrite
           in (fadd qr (fmul diffRead diffRead), fadd qw (fmul diffWrite diffWrite)))
        history (a, b) =
     (foldl fadd a (map (squared_deviation avgRead) (read_latencies history)),
      foldl fadd b (map (squared_deviation avgWrite) (write_latencies history)))"
  by (induction history arbitrary: a b)
     (simp_all add: Let_def squared_deviation_def read_latencies_def write_latencies_def
        float64_of_uint64_nat)

lemma fold_squared_deviations_nat:
  "fold (\<lambda>metrics (qr, qw).
           (fadd qr (fmul (fsub (float64_of_nat (unat (ReadLatency metrics))) avgRead)
                          (fsub (float64_of_nat (unat (ReadLatency metrics))) avgRead)),
            fadd qw (fmul (fsub (float64_of_nat (unat (WriteLatency metrics))) avgWrite)
                          (fsub (float64_of_nat (unat (WriteLatency metrics))) avgWrite))))
        history (a, b) =
     (foldl fadd a (map (squared_deviation avgRead) (read_latencies history)),
      foldl fadd b (map (squared_deviation avgWrite) (write_latencies history)))"
  using fold_squared_deviations [of avgRead avgWrite history a b]
  by (simp add: Let_def float64_of_uint64_nat)

lemma last_latencies:
  "history \<noteq> [] \<Longrightarrow> unat (ReadLatency (last history)) = last (read_latencies history)"
  "history \<noteq> [] \<Longrightarrow> unat (WriteLatency (last history)) = last (write_latencies history)"
  by (simp_all add: read_latencies_def write_latencies_def last_map)

lemma detectAnomaly_history_wrapped:
  "detectAnomaly_history threshold history =
     (if length history < 10 then False
      else fgt (wrapped_z_score (read_latencies history)) threshold \<or>
           fgt (wrapped_z_score (write_latencies history)) threshold)"
proof (cases "length history < 10")
  case True
  then show ?thesis by (simp add: detectAnomaly_history_def)
next
  case False
  then have ne: "history \<noteq> []" by auto
  have sr: "unat (sum_list (map ReadLatency history)) = sum_list (read_latencies history) mod 2 ^ 64"
    by (simp add: unat_sum_list read_latencies_def comp_def)
  have sw: "unat (sum_list (map WriteLatency history)) = sum_list (write_latencies history) mod 2 ^ 64"
    by (simp add: unat_sum_list write_latencies_def comp_def)
  have len: "length (read_latencies history) = length history" "length (write_latencies history) = length history"
    by (simp_all add: read_latencies_def write_latencies_def)
  show ?thesis
    using False
    by (simp add: detectAnomaly_history_def fold_latency_sums fold_squared_deviations_nat Let_def
        float64_of_uint64_nat float64_of_int_nat sr sw last_latencies [OF ne]
        wrapped_z_score_def wrapped_mean_def fsum_def len)
qed

lemma detectAnomaly_history_refines:
  assumes "sum_list (read_latencies history) < 2 ^ 64" and "sum_list (write_latencies history) < 2 ^ 64"
  shows "detectAnomaly_history threshold history = anomaly_by_z_score threshold history"
proof -
  have "wrapped_z_score (read_latencies history) = z_score (read_latencies history)"
    using assms(1)
    by (simp add: wrapped_z_score_def z_score_def wrapped_mean_def population_mean_def
        population_variance_def)
  moreover have "wrapped_z_score (write_latencies history) = z_score (write_latencies history)"
    using assms(2)
    by (simp add: wrapped_z_score_def z_score_def wrapped_mean_def population_mean_def
        population_variance_def)
  ultimately show ?thesis
    by (simp add: detectAnomaly_history_wrapped anomaly_by_z_score_def)
qed

lemma detectAnomaly_values:
  "detectAnomaly h sa podName = detectAnomaly_history (anomalyThreshold sa) (history_values h sa podName)"
  by (simp add: detectAnomaly_def history_values_def history_of_def detectAnomaly_history_def
      split: option.splits)


lemma history_values_upt:
  "metricsHistory sa podName = Some [0..<length h] \<Longrightarrow> history_values h sa podName = h"
  by (simp add: history_values_def history_of_def map_nth)

lemma constant_latencies:
  assumes "\<forall>m \<in> set history. ReadLatency m = r \<and> WriteLatency m = w"
  shows "read_latencies history = replicate (length history) (unat r)"
    and "write_latencies history = replicate (length history) (unat w)"
  using assms by (induction history) (simp_all add: read_latencies_def write_latencies_def)

text \<open>
  Claim C10, amended. For a history of snapshots that all have the same read
  latency and the same write latency, with length times latency below \<open>2^53\<close> for
  both (so that the sums and the means are exact), detectAnomaly returns false; when
  the history is not empty, both variances are zero and both scores are NaN.
\<close>

theorem detectAnomaly_constant_history:
  assumes "\<forall>m \<in> set (history_values h sa podName). ReadLatency m = r \<and> WriteLatency m = w"
    and "length (history_values h sa podName) * unat r < 2 ^ 53"
    and "length (history_values h sa podName) * unat w < 2 ^ 53"
  shows "\<not> detectAnomaly h sa podName \<and>
         (history_values h sa podName \<noteq> [] \<longrightarrow>
            population_variance (read_latencies (history_values h sa podName)) = Finite False 0 \<and>
            population_variance (write_latencies (history_values h sa podName)) = Finite False 0 \<and>
            z_score (read_latencies (history_values h sa podName)) = NaN \<and>
            z_score (write_latencies (history_values h sa podName)) = NaN)"
proof -
  let ?history = "history_values h sa podName"
  let ?n = "length ?history"
  note const = constant_latencies [OF assms(1)]
  have sums: "sum_list (read_latencies ?history) < 2 ^ 64" "sum_list (write_latencies ?history) < 2 ^ 64"
    using assms(2,3) by (simp_all add: const sum_list_replicate)
  have scores: "z_score (read_latencies ?history) = NaN \<and> z_score (write_latencies ?history) = NaN \<and>
      population_variance (read_latencies ?history) = Finite False 0 \<and>
      population_variance (write_latencies ?history) = Finite False 0"
    if "?history \<noteq> []"
  proof -
    from that have n: "0 < ?n" by simp
    show ?thesis
      by (simp only: const z_score_constant [OF n assms(2)] z_score_constant [OF n assms(3)]
          population_variance_constant [OF n assms(2)] population_variance_constant [OF n assms(3)])
  qed
  have "\<not> anomaly_by_z_score (anomalyThreshold sa) ?history"
  proof (cases "?n < 10")
    case True
    then show ?thesis by (simp add: anomaly_by_z_score_def)
  next
    case False
    then have "?history \<noteq> []" by auto
    from scores [OF this] False show ?thesis
      by (simp add: anomaly_by_z_score_def fgt_def flt_NaN)
  qed
  then have "\<not> detectAnomaly h sa podName"
    by (simp add: detectAnomaly_values detectAnomaly_history_refines [OF sums])
  with scores show ?thesis by blast
qed

subsection \<open>The example histories, evaluated\<close>

lemma identical_list: "read_latencies identical_history = replicate 10 2000000000000001"
  by (simp add: read_latencies_def identical_history_def snapshot_def)

lemma identical_writes: "write_latencies identical_history = replicate 10 0"
  by (simp add: write_latencies_def identical_history_def snapshot_def replicate_snoc_same)

lemma identical_props:
  "length identical_history = 10"
  "length (read_latencies identical_history) = 10"
  "last (read_latencies identical_history) = 2000000000000001"
  "sum_list (read_latencies identical_history) = 20000000000000010"
  "sum_list (write_latencies identical_history) = 0"
  by (simp_all add: identical_list identical_writes sum_list_replicate) (simp_all add: identical_history_def)

lemma identical_mean: "population_mean (read_latencies identical_history) = Finite False (8000000000000003 / 4)"
  by (simp add: population_mean_def identical_props float_eval)

lemma identical_dev:
  "squared_deviation (Finite False (8000000000000003 / 4)) 2000000000000001 = Finite False (1 / 16)"
  by (simp_all add: squared_deviation_def float_eval)

lemma identical_fsum:
  "fsum (map (squared_deviation (Finite False (8000000000000003 / 4))) (read_latencies identical_history)) = Finite False (5 / 8)"
  by (simp add: identical_list identical_dev fsum_def fconst_def)
     (simp add: foldl_replicate_numeral float_eval)

lemma identical_var: "population_variance (read_latencies identical_history) = Finite False (1 / 16)"
  by (simp add: population_variance_def identical_mean identical_fsum identical_props)
     (simp add: float_eval)

lemma identical_z: "z_score (read_latencies identical_history) = Finite False 4"
  by (simp add: z_score_def identical_mean identical_var identical_props)
     (simp add: float_eval)













lemma spike_list: "read_latencies spike_history = replicate 9 10 @ [11]"
  by (simp add: read_latencies_def spike_history_def snapshot_def)

lemma spike_writes: "write_latencies spike_history = replicate 10 0"
  by (simp add: write_latencies_def spike_history_def snapshot_def replicate_snoc_same)

lemma spike_props:
  "length spike_history = 10"
  "length (read_latencies spike_history) = 10"
  "last (read_latencies spike_history) = 11"
  "sum_list (read_latencies spike_history) = 101"
  "sum_list (write_latencies spike_history) = 0"
  by (simp_all add: spike_list spike_writes sum_list_replicate) (simp_all add: spike_history_def)

lemma spike_mean: "population_mean (read_latencies spike_history) = Finite False (5685794529555251 / 562949953421312)"
  by (simp add: population_mean_def spike_props float_eval)














lemma dip_list: "read_latencies dip_history = replicate 9 11 @ [10]"
  by (simp add: read_latencies_def dip_history_def snapshot_def)

lemma dip_writes: "write_latencies dip_history = replicate 10 0"
  by (simp add: write_latencies_def dip_history_def snapshot_def replicate_snoc_same)

lemma dip_props:
  "length dip_history = 10"
  "length (read_latencies dip_history) = 10"
  "last (read_latencies dip_history) = 10"
  "sum_list (read_latencies dip_history) = 109"
  "sum_list (write_latencies dip_history) = 0"
  by (simp_all add: dip_list dip_writes sum_list_replicate) (simp_all add: dip_history_def)

lemma dip_mean: "population_mean (read_latencies dip_history) = Finite False (6136154492292301 / 562949953421312)"
  by (simp add: population_mean_def dip_props float_eval)

lemma dip_dev:
  "squared_deviation (Finite False (6136154492292301 / 562949953421312)) 11 = Finite False (2882303761517097 / 288230376151711744)" 
  "squared_deviation (Finite False (6136154492292301 / 562949953421312)) 10 = Finite False (7295831396340209 / 9007199254740992)"
  by (simp_all add: squared_deviation_def float_eval)

lemma dip_fsum:
  "fsum (map (squared_deviation (Finite False (6136154492292301 / 562949953421312))) (read_latencies dip_history)) = Finite False (2026619832316723 / 2251799813685248)"
  by (simp add: dip_list dip_dev fsum_def fconst_def)
     (simp add: foldl_replicate_numeral float_eval)

lemma dip_var: "population_variance (read_latencies dip_history) = Finite False (3242591731706757 / 36028797018963968)"
  by (simp add: population_variance_def dip_mean dip_fsum dip_props)
     (simp add: float_eval)

lemma dip_z: "z_score (read_latencies dip_history) = Finite True (2814749767106561 / 281474976710656)"
  by (simp add: z_score_def dip_mean dip_var dip_props)
     (simp add: float_eval)


lemma spike_deviation: "latest_deviation (read_latencies spike_history) = Finite False (506654958079181 / 562949953421312)"
  by (simp add: latest_deviation_def spike_mean spike_props)
     (simp add: float_eval)

subsection \<open>Claims about the anomaly detector\<close>

lemma analyzer_of_pod_a_values:
  "length h = n \<Longrightarrow> history_values h (analyzer_of_pod_a n) ''a'' = h"
  by (rule history_values_upt) (simp add: analyzer_of_pod_a_def)

lemma analyzer_of_pod_a_threshold: "anomalyThreshold (analyzer_of_pod_a n) = fconst 2"
  by (simp add: analyzer_of_pod_a_def NewStorageAnalyzer_def)

lemma detectAnomaly_history_identical: "detectAnomaly_history (fconst 2) identical_history"
proof -
  have "anomaly_by_z_score (fconst 2) identical_history"
    by (simp add: anomaly_by_z_score_def identical_props identical_z fgt_def fconst_def signed_def)
  moreover have "detectAnomaly_history (fconst 2) identical_history =
      anomaly_by_z_score (fconst 2) identical_history"
    by (rule detectAnomaly_history_refines) (simp_all add: identical_props)
  ultimately show ?thesis by simp
qed

text \<open>
  Claim C10, as stated, fails: ten identical snapshots with a read latency of
  2000000000000001 ns are flagged as an anomaly. Their sum
  20000000000000010 is rounded to 20000000000000008 when converted, the mean comes
  out a quarter below the latency, the variance is 1/16 instead of 0 and the read
  score is 4, above the default threshold 2.
\<close>

theorem detectAnomaly_identical_counterexample:
  "detectAnomaly identical_history (analyzer_of_pod_a 10) ''a'' \<and>
   population_variance (read_latencies identical_history) = Finite False (1 / 16) \<and>
   z_score (read_latencies identical_history) = Finite False 4"
  using detectAnomaly_history_identical
  by (simp add: detectAnomaly_values analyzer_of_pod_a_values identical_props
      analyzer_of_pod_a_threshold identical_var identical_z)

theorem detectAnomaly_constant_history_witness:
  "set (history_values calm_history (analyzer_of_pod_a 10) ''a'') =
     {snapshot ''a'' 0 5000000 7000000 0 0 0} \<and>
   length (history_values calm_history (analyzer_of_pod_a 10) ''a'') = 10 \<and>
   \<not> detectAnomaly calm_history (analyzer_of_pod_a 10) ''a'' \<and>
   z_score (read_latencies (history_values calm_history (analyzer_of_pod_a 10) ''a'')) = NaN"
proof -
  have len: "length calm_history = 10"
    by (simp add: calm_history_def)
  have vals: "history_values calm_history (analyzer_of_pod_a 10) ''a'' = calm_history"
    by (rule analyzer_of_pod_a_values [OF len])
  have same: "\<forall>m \<in> set (history_values calm_history (analyzer_of_pod_a 10) ''a'').
      ReadLatency m = 5000000 \<and> WriteLatency m = 7000000"
    unfolding vals by (simp add: calm_history_def snapshot_def)
  have r: "length (history_values calm_history (analyzer_of_pod_a 10) ''a'') * unat (5000000 :: uint64) < 2 ^ 53"
    unfolding vals len by simp
  have w: "length (history_values calm_history (analyzer_of_pod_a 10) ''a'') * unat (7000000 :: uint64) < 2 ^ 53"
    unfolding vals len by simp
  have ne: "history_values calm_history (analyzer_of_pod_a 10) ''a'' \<noteq> []"
    unfolding vals using len by auto
  have "set calm_history = {snapshot ''a'' 0 5000000 7000000 0 0 0}"
    by (simp add: calm_history_def)
  with detectAnomaly_constant_history [OF same r w] ne vals len show ?thesis
    by simp
qed



text \<open>
  The threshold has to be positive: against a threshold of -100 the history whose
  latest read latency dips below the others, with a score of about -10, is flagged.
\<close>

lemma detectAnomaly_negative_threshold:
  "detectAnomaly_history (fconst (- 100)) dip_history"
proof -
  have "anomaly_by_z_score (fconst (- 100)) dip_history"
    by (simp add: anomaly_by_z_score_def dip_props dip_z fgt_def fconst_def signed_def)
  moreover have "detectAnomaly_history (fconst (- 100)) dip_history =
      anomaly_by_z_score (fconst (- 100)) dip_history"
    by (rule detectAnomaly_history_refines) (simp_all add: dip_props)
  ultimately show ?thesis by simp
qed


section \<open>Selection of the snapshot a trend starts from\<close>

lemma GetLatencyTrend_selection:
  assumes "\<not> insufficient_data sa podName"
  shows "GetLatencyTrend h sa now podName duration =
     (fst (latency_trend (newest_before_window (history_values h sa podName) (Time_Add now (- duration)))
             (last (history_values h sa podName))),
      snd (latency_trend (newest_before_window (history_values h sa podName) (Time_Add now (- duration)))
             (last (history_values h sa podName))),
      None)"
  using assms
  by (auto simp: insufficient_data_def GetLatencyTrend_def history_values_def history_of_def
      newest_before_window_def latency_trend_def Let_def split: option.splits)

lemma find_None_iff_all: "find P xs = None \<longleftrightarrow> (\<forall>x \<in> set xs. \<not> P x)"
  by (induction xs) auto

text \<open>
  The negation of a duration is the negation of its value, except for the least
  \<^verbatim>\<open>int64\<close>, which is its own negation.
\<close>

lemma sint_minus_Duration:
  "sint (- d :: Duration) = (if sint d = - (2 ^ 63) then - (2 ^ 63) else - sint d)"
proof -
  have range: "- (2 ^ 63) \<le> sint d" "sint d < 2 ^ 63"
    using sint_ge [of d] sint_lt [of d] by simp_all
  have neg: "sint (- d) = signed_take_bit 63 (- sint d)"
    by (simp add: sint_word_ariths)
  show ?thesis
  proof (cases "sint d = - (2 ^ 63)")
    case True
    then show ?thesis
      by (simp add: neg signed_take_bit_eq_take_bit_shift take_bit_eq_mod)
  next
    case False
    with range have "- (2 ^ 63) \<le> - sint d" "- sint d < 2 ^ 63" by simp_all
    then have "signed_take_bit 63 (- sint d) = - sint d"
      by (simp add: signed_take_bit_int_eq_self)
    with False show ?thesis by (simp add: neg)
  qed
qed

lemma Time_Add_minus:
  "sint duration \<noteq> - (2 ^ 63) \<Longrightarrow> Time_Add now (- duration) = now - sint duration"
  by (simp add: Time_Add_def sint_minus_Duration)

text \<open>
  When every snapshot of the history lies in the window, the loop finds no snapshot
  before it and the code does compare the latest snapshot with the oldest one in
  the window, as in the example of the specification. The window is the value of
  the duration; the least \<^verbatim>\<open>int64\<close> is set aside, for which \<^verbatim>\<open>-duration\<close> is not the
  negated value.
\<close>

lemma GetLatencyTrend_all_in_window:
  assumes "\<not> insufficient_data sa podName"
    and "sint duration \<noteq> - (2 ^ 63)"
    and "\<forall>m \<in> set (history_values h sa podName). now - sint duration \<le> Timestamp m"
  shows "GetLatencyTrend h sa now podName duration =
     (fst (trend_in_window (history_values h sa podName) now (sint duration)),
      snd (trend_in_window (history_values h sa podName) now (sint duration)), None)"
proof -
  let ?history = "history_values h sa podName"
  let ?start = "now - sint duration"
  from assms(1) have ne: "?history \<noteq> []"
    by (auto simp: insufficient_data_def history_values_def history_of_def split: option.splits)
  have "find (\<lambda>m. Timestamp m < ?start) (rev ?history) = None"
    using assms(3) by (auto simp: find_None_iff_all)
  then have a: "newest_before_window ?history ?start = ?history ! 0"
    by (simp add: newest_before_window_def)
  have "filter (\<lambda>m. ?start \<le> Timestamp m) ?history = ?history"
    using assms(3) by (simp add: filter_id_conv)
  then have b: "oldest_in_window ?history ?start = ?history ! 0"
    using ne by (cases ?history) (simp_all add: oldest_in_window_def)
  show ?thesis
    by (simp add: GetLatencyTrend_selection [OF assms(1)] Time_Add_minus [OF assms(2)]
        trend_in_window_def a b)
qed

lemma GetLatencyTrend_example:
  "GetLatencyTrend trend_heap (trend_analyzer [0, 1]) 300000000000 ''a'' 300000000000 =
     (''increased'', Finite False 25, None)"
  by (simp add: GetLatencyTrend_def trend_heap_def trend_analyzer_def snapshot_def float_eval
      float64_of_uint64_def Time_Add_def)

lemma window_values: "history_values window_history (analyzer_of_pod_a 4) ''a'' = window_history"
  by (rule analyzer_of_pod_a_values) (simp add: window_history_def)

text \<open>
  The least duration is its own negation, so that the window starts \<open>2^63\<close> ns
  before \<open>now\<close> and not after it: no snapshot is older than that, and the latest
  snapshot is compared with the oldest one.
\<close>

lemma GetLatencyTrend_least_duration:
  "GetLatencyTrend window_history (analyzer_of_pod_a 4) 300000000000 ''a'' (- 9223372036854775808) =
     (''increased'', Finite False 100, None)"
proof -
  have suff: "\<not> insufficient_data (analyzer_of_pod_a 4) ''a''"
    by (simp add: insufficient_data_def analyzer_of_pod_a_def)
  have start: "Time_Add 300000000000 (- (- 9223372036854775808)) = - 9223371736854775808"
    by (simp add: Time_Add_def)
  have code: "newest_before_window window_history (- 9223371736854775808) = window_history ! 0"
    by (simp add: newest_before_window_def window_history_def snapshot_def)
  have latest: "last window_history = window_history ! 3"
    by (simp add: window_history_def)
  have up: "latency_trend (window_history ! 0) (window_history ! 3) = (''increased'', Finite False 100)"
    by (simp add: latency_trend_def window_history_def snapshot_def float64_of_uint64_def float_eval)
  show ?thesis
    by (simp only: GetLatencyTrend_selection [OF suff] window_values
        start code latest up fst_conv snd_conv simp_thms)
qed

text \<open>
  Claim C1 at two concrete calls on a history with snapshots at 0 s, 100 s, 200 s
  and 300 s and combined latencies 10, 10, 20, 20. With a window of 150 s at time
  300 s the oldest snapshot in the window is the one at 200 s and the trend of the
  claim is stable; the code compares with the snapshot at 100 s, outside the window,
  and reports increased by 100. With the same window at time 1000 s no snapshot is
  in the window and the claim falls back to the oldest, increased by 100; the code
  compares the latest snapshot with itself and reports stable.
\<close>

theorem GetLatencyTrend_window_selection:
  "GetLatencyTrend window_history (analyzer_of_pod_a 4) 300000000000 ''a'' 150000000000 =
     (''increased'', Finite False 100, None) \<and>
   trend_in_window (history_values window_history (analyzer_of_pod_a 4) ''a'')
     300000000000 150000000000 = (''stable'', Finite False 0) \<and>
   GetLatencyTrend window_history (analyzer_of_pod_a 4) 1000000000000 ''a'' 150000000000 =
     (''stable'', Finite False 0, None) \<and>
   trend_in_window (history_values window_history (analyzer_of_pod_a 4) ''a'')
     1000000000000 150000000000 = (''increased'', Finite False 100)"
proof -
  have suff: "\<not> insufficient_data (analyzer_of_pod_a 4) ''a''"
    by (simp add: insufficient_data_def analyzer_of_pod_a_def)
  have code1: "newest_before_window window_history (Time_Add 300000000000 (- 150000000000)) =
      window_history ! 1"
    by (simp add: newest_before_window_def window_history_def snapshot_def Time_Add_def)
  have spec1: "oldest_in_window window_history (300000000000 - 150000000000) = window_history ! 2"
    by (simp add: oldest_in_window_def window_history_def snapshot_def)
  have code2: "newest_before_window window_history (Time_Add 1000000000000 (- 150000000000)) =
      window_history ! 3"
    by (simp add: newest_before_window_def window_history_def snapshot_def Time_Add_def)
  have spec2: "oldest_in_window window_history (1000000000000 - 150000000000) = window_history ! 0"
    by (simp add: oldest_in_window_def window_history_def snapshot_def)
  have latest: "last window_history = window_history ! 3"
    by (simp add: window_history_def)
  have up: "latency_trend (window_history ! 1) (window_history ! 3) = (''increased'', Finite False 100)"
    "latency_trend (window_history ! 0) (window_history ! 3) = (''increased'', Finite False 100)"
    by (simp_all add: latency_trend_def window_history_def snapshot_def float64_of_uint64_def float_eval)
  have flat: "latency_trend (window_history ! 2) (window_history ! 3) = (''stable'', Finite False 0)"
    "latency_trend (window_history ! 3) (window_history ! 3) = (''stable'', Finite False 0)"
    by (simp_all add: latency_trend_def window_history_def snapshot_def float64_of_uint64_def float_eval)
  show ?thesis
    by (simp only: GetLatencyTrend_selection [OF suff] window_values trend_in_window_def
        code1 spec1 code2 spec2 latest up flat fst_conv snd_conv simp_thms)
qed

section \<open>The example of ten identical snapshots, through AddMetrics\<close>

lemma AddMetrics_calls_snoc:
  "AddMetrics_calls h sa (batches @ [batch]) =
     (case AddMetrics_calls h sa batches of
        Inl p \<Rightarrow> Inl p
      | Inr (h', sa') \<Rightarrow> AddMetrics h' sa' batch)"
  by (induction batches arbitrary: h sa) (auto split: sum.splits)

text \<open>
  The first \<open>k\<close> calls of AddMetrics on a new analyzer, each with the one snapshot
  \<open>m\<close> of pod \<open>name\<close>, for \<open>k\<close> up to the default capacity 100: the heap holds \<open>k\<close>
  copies, the history points to all of them, and the anomaly flag is the result of
  detectAnomaly on these \<open>k\<close> copies.
\<close>

lemma AddMetrics_pod_anomaly:
  "HasAnomalyDetected (snd (AddMetrics_pod h sa podName m)) podName =
     detectAnomaly_history (anomalyThreshold sa)
       (map ((!) (h @ [m]))
          (if int (length (history_of sa podName @ [length h])) > maxHistoryPerPod sa
           then drop 1 (history_of sa podName @ [length h])
           else history_of sa podName @ [length h]))"
  by (simp add: AddMetrics_pod_def new_def Let_def history_of_def HasAnomalyDetected_def
      detectAnomaly_def)

lemma AddMetrics_same_snapshot:
  assumes "0 < k" and "k \<le> 100"
  shows "\<exists>sa. AddMetrics_calls [] (NewStorageAnalyzer []) (replicate k [(name, Some m)]) =
                Inr (replicate k m, sa) \<and>
              metricsHistory sa = [name \<mapsto> [0..<k]] \<and>
              maxHistoryPerPod sa = 100 \<and> anomalyThreshold sa = fconst 2 \<and>
              HasAnomalyDetected sa name = detectAnomaly_history (fconst 2) (replicate k m)"
  using assms
proof (induction k)
  case 0
  then show ?case by simp
next
  case (Suc k)
  let ?new = "NewStorageAnalyzer []"
  have snoc: "replicate (Suc k) [(name, Some m)] = replicate k [(name, Some m)] @ [[(name, Some m)]]"
    by (simp add: replicate_append_same)
  have "\<exists>h sa. AddMetrics_calls [] ?new (replicate k [(name, Some m)]) = Inr (h, sa) \<and>
          h = replicate k m \<and> history_of sa name = [0..<k] \<and>
          (\<forall>other. other \<noteq> name \<longrightarrow> metricsHistory sa other = None) \<and>
          maxHistoryPerPod sa = 100 \<and> anomalyThreshold sa = fconst 2"
  proof (cases "k = 0")
    case True
    then show ?thesis
      by (simp add: NewStorageAnalyzer_def history_of_def)
  next
    case False
    then have "0 < k" "k \<le> 100"
      using Suc.prems by simp_all
    from Suc.IH [OF this] show ?thesis
      by (auto simp: history_of_def)
  qed
  then obtain sa where
    run: "AddMetrics_calls [] ?new (replicate k [(name, Some m)]) = Inr (replicate k m, sa)" and
    hist: "history_of sa name = [0..<k]" and
    others: "\<forall>other. other \<noteq> name \<longrightarrow> metricsHistory sa other = None" and
    cap: "maxHistoryPerPod sa = 100" and thr: "anomalyThreshold sa = fconst 2"
    by blast
  let ?step = "AddMetrics_pod (replicate k m) sa name m"
  have next_run: "AddMetrics_calls [] ?new (replicate (Suc k) [(name, Some m)]) = Inr ?step"
    unfolding snoc AddMetrics_calls_snoc run by simp
  have heap: "fst ?step = replicate (Suc k) m"
    by (simp add: AddMetrics_pod_fields replicate_append_same)
  have kept: "(if int (length (history_of sa name @ [length (replicate k m)])) > maxHistoryPerPod sa
               then drop 1 (history_of sa name @ [length (replicate k m)])
               else history_of sa name @ [length (replicate k m)]) = [0..<Suc k]"
    using Suc.prems(2) by (simp add: hist cap)
  have history: "metricsHistory (snd ?step) = [name \<mapsto> [0..<Suc k]]"
    unfolding AddMetrics_pod_fields kept using others by (auto simp: fun_eq_iff)
  have vals: "map ((!) (replicate k m @ [m])) [0..<Suc k] = replicate (Suc k) m"
    using map_nth [of "replicate (Suc k) m"] by (simp add: replicate_append_same)
  have flag: "HasAnomalyDetected (snd ?step) name =
                detectAnomaly_history (fconst 2) (replicate (Suc k) m)"
    unfolding AddMetrics_pod_anomaly kept thr vals ..
  have "AddMetrics_calls [] ?new (replicate (Suc k) [(name, Some m)]) =
          Inr (replicate (Suc k) m, snd ?step)"
    using next_run heap by (metis prod.collapse)
  with history flag cap thr show ?case
    by (auto simp: AddMetrics_pod_fields)
qed

text \<open>
  Ten calls of AddMetrics with the snapshot of the example flag pod a as anomalous.
\<close>

lemma AddMetrics_identical_flagged:
  "\<exists>sa. AddMetrics_calls [] (NewStorageAnalyzer [])
           (replicate 10 [(''a'', Some (snapshot ''a'' 0 2000000000000001 0 0 0 0))]) =
         Inr (identical_history, sa) \<and>
        metricsHistory sa = metricsHistory (analyzer_of_pod_a 10) \<and>
        HasAnomalyDetected sa ''a''"
proof -
  from AddMetrics_same_snapshot [of 10 "''a''" "snapshot ''a'' 0 2000000000000001 0 0 0 0"]
    detectAnomaly_history_identical
  show ?thesis
    by (auto simp: identical_history_def analyzer_of_pod_a_def)
qed

end
